theory Spec2Isabelle
  imports
    Complex_Main
    "HOL-Library.Word"
    "HOL-Library.AList"
    "HOL-Library.List_Lexorder"
    "HOL-Library.Char_ord"
begin

unbundle bit_operations_syntax

chapter \<open>The ECS runtime core of ecsy, embedded in HOL\<close>

text \<open>
  The development follows \<^verbatim>\<open>build/ecsy.module.js\<close> (Utils, ObjectPool, Component,
  Query, Entity, World) and, for the entity manager with the ghost rule, the
  \<^verbatim>\<open>EntityManager\<close> class that dispatches \<^verbatim>\<open>Entity.dispose\<close> of
  \<^verbatim>\<open>src/Entity.js\<close>. JavaScript objects live in stores indexed by natural numbers (their
  identity); every method takes the world and returns the updated world.
\<close>

section \<open>JavaScript values and arrays\<close>

text \<open>A value that is either \<^verbatim>\<open>undefined\<close> or a reference to an object.\<close>

datatype 'a slot = Undefined | Obj 'a

fun truthy :: "'a slot \<Rightarrow> bool" where
  "truthy Undefined = False"
| "truthy (Obj _) = True"

text \<open>
  An object used as a dictionary keeps its string keys in insertion order, which is the
  order of \<^verbatim>\<open>for (k in o)\<close>: an association list. Reading a missing key gives
  \<^verbatim>\<open>undefined\<close>.
\<close>

type_synonym 'v dict = "(string \<times> 'v) list"

definition dict_get :: "'v slot dict \<Rightarrow> string \<Rightarrow> 'v slot" where
  "dict_get m k = (case map_of m k of None \<Rightarrow> Undefined | Some v \<Rightarrow> v)"

definition dict_set :: "'v dict \<Rightarrow> string \<Rightarrow> 'v \<Rightarrow> 'v dict" where
  "dict_set m k v = AList.update k v m"

definition dict_delete :: "'v dict \<Rightarrow> string \<Rightarrow> 'v dict" where
  "dict_delete m k = AList.delete k m"

text \<open>\<^verbatim>\<open>Array.prototype.indexOf\<close>: the first index of the element, or \<open>-1\<close>.\<close>

fun indexOf :: "'a list \<Rightarrow> 'a \<Rightarrow> int" where
  "indexOf [] x = -1"
| "indexOf (y # ys) x =
     (if y = x then 0 else (let r = indexOf ys x in if r < 0 then -1 else r + 1))"

text \<open>
  \<^verbatim>\<open>xs.splice(i, 1)\<close>: a negative start counts from the end of the array (so
  \<^verbatim>\<open>splice(-1, 1)\<close> removes the last element), a start beyond the end removes nothing.
\<close>

definition splice1 :: "int \<Rightarrow> 'a list \<Rightarrow> 'a list" where
  "splice1 i xs =
     (let n = int (length xs);
          start = (if i < 0 then max (n + i) 0 else min i n)
      in take (nat start) xs @ drop (nat start + 1) xs)"

text \<open>\<^verbatim>\<open>xs.push(x)\<close> appends, \<^verbatim>\<open>xs.pop()\<close> takes the last element.\<close>

definition push :: "'a list \<Rightarrow> 'a \<Rightarrow> 'a list" where
  "push xs x = xs @ [x]"

text \<open>\<^verbatim>\<open>names.join("-")\<close>.\<close>

fun join :: "string \<Rightarrow> string list \<Rightarrow> string" where
  "join sep [] = []"
| "join sep [x] = x"
| "join sep (x # y # ys) = x @ sep @ join sep (y # ys)"

section \<open>Utils: generateUUID\<close>

definition hex_digits :: string where
  "hex_digits = ''0123456789abcdef''"

text \<open>\<^verbatim>\<open>i.toString(16)\<close> for a non-negative integer.\<close>

fun toString16 :: "nat \<Rightarrow> string" where
  "toString16 n =
     (if n < 16 then [hex_digits ! n] else toString16 (n div 16) @ [hex_digits ! (n mod 16)])"

declare toString16.simps [simp del]

text \<open>The table \<^verbatim>\<open>_lut\<close>, filled for \<^verbatim>\<open>i\<close> from 0 to 255.\<close>

definition lut :: "string list" where
  "lut = map (\<lambda>i. (if i < 16 then ''0'' else []) @ toString16 i) [0..<256]"

definition toUpperCase_char :: "char \<Rightarrow> char" where
  "toUpperCase_char c =
     (case map_of (zip ''abcdefghijklmnopqrstuvwxyz'' ''ABCDEFGHIJKLMNOPQRSTUVWXYZ'') c of
        Some u \<Rightarrow> u
      | None \<Rightarrow> c)"

definition toUpperCase :: "string \<Rightarrow> string" where
  "toUpperCase s = map toUpperCase_char s"

text \<open>
  \<^verbatim>\<open>Math.random() * 0xffffffff | 0\<close> is a signed 32-bit integer; \<^verbatim>\<open>d >> n\<close> is the
  arithmetic shift. The four draws are the arguments of the model.
\<close>

type_synonym int32 = "32 word"

definition shr :: "int32 \<Rightarrow> nat \<Rightarrow> int32" where
  "shr d n = signed_drop_bit n d"

definition generateUUID :: "int32 \<Rightarrow> int32 \<Rightarrow> int32 \<Rightarrow> int32 \<Rightarrow> string" where
  "generateUUID d0 d1 d2 d3 =
     (let uuid =
        lut ! unat (d0 AND 0xff) @ lut ! unat (shr d0 8 AND 0xff) @
        lut ! unat (shr d0 16 AND 0xff) @ lut ! unat (shr d0 24 AND 0xff) @ ''-'' @
        lut ! unat (d1 AND 0xff) @ lut ! unat (shr d1 8 AND 0xff) @ ''-'' @
        lut ! unat (shr d1 16 AND 0x0f OR 0x40) @ lut ! unat (shr d1 24 AND 0xff) @ ''-'' @
        lut ! unat (d2 AND 0x3f OR 0x80) @ lut ! unat (shr d2 8 AND 0xff) @ ''-'' @
        lut ! unat (shr d2 16 AND 0xff) @ lut ! unat (shr d2 24 AND 0xff) @
        lut ! unat (d3 AND 0xff) @ lut ! unat (shr d3 8 AND 0xff) @
        lut ! unat (shr d3 16 AND 0xff) @ lut ! unat (shr d3 24 AND 0xff)
      in toUpperCase uuid)"

section \<open>Component classes and instances\<close>

text \<open>
  A schema maps each field name to the default of its kind. The kinds modelled are the
  ones copied by \<^verbatim>\<open>copyValue\<close> and cloned by \<^verbatim>\<open>cloneValue\<close> (Number, Boolean,
  String): copying assigns the value, cloning returns it.
\<close>

datatype prim = Num int | Bool bool | Str string

text \<open>
  A component class (a constructor function): its identity, its \<^verbatim>\<open>name\<close>, the static
  flag \<^verbatim>\<open>isSystemStateComponent\<close> and its schema. \<^verbatim>\<open>indexOf\<close> on arrays of
  classes compares them by identity.
\<close>

record ComponentClass =
  class_id :: nat
  name :: string
  isSystemStateComponent :: bool
  schema :: "prim dict"

text \<open>
  A component instance: its class (\<^verbatim>\<open>this.constructor\<close>), the values of its schema
  fields, and \<^verbatim>\<open>_pool\<close>, the pool that owns it.
\<close>

record Component =
  constructor :: ComponentClass
  data :: "prim dict"
  pool :: "nat option"

text \<open>\<^verbatim>\<open>new Component(props)\<close>: a given property wins over the schema default.\<close>

definition Component_new :: "ComponentClass \<Rightarrow> prim dict slot \<Rightarrow> Component" where
  "Component_new C props =
     \<lparr> constructor = C,
       data = map (\<lambda>(key, dflt).
                (key, case props of
                        Obj p \<Rightarrow> (case map_of p key of Some v \<Rightarrow> v | None \<Rightarrow> dflt)
                      | Undefined \<Rightarrow> dflt)) (schema C),
       pool = None \<rparr>"

text \<open>\<^verbatim>\<open>copy(source)\<close>: every key of the source that the schema has is assigned.\<close>

definition Component_copy :: "Component \<Rightarrow> prim dict \<Rightarrow> Component" where
  "Component_copy c source =
     c\<lparr>data := fold (\<lambda>(key, v) d.
                 if key \<in> set (map fst (schema (constructor c))) then dict_set d key v else d)
               source (data c)\<rparr>"

text \<open>\<^verbatim>\<open>clone()\<close> is \<^verbatim>\<open>new this.constructor().copy(this)\<close>.\<close>

definition Component_clone :: "Component \<Rightarrow> Component" where
  "Component_clone c = Component_copy (Component_new (constructor c) Undefined) (data c)"

section \<open>ObjectPool\<close>

text \<open>The items of a pool and its base object are references into a store.\<close>

record ObjectPool =
  freeList :: "nat list"
  count :: nat
  baseObject :: nat

text \<open>
  \<^verbatim>\<open>Math.round(x)\<close> is the integer nearest to \<open>x\<close>, a half rounding up. The product
  \<^verbatim>\<open>this.count * 0.2\<close> is taken exactly: a fifth of an integer is never within 0.1 of a
  half, so the rounding error of the double product (below \<open>2\<^sup>-\<^sup>3\<close> for every count
  under \<open>2\<^sup>4\<^sup>9\<close>) does not change the result.
\<close>

definition Math_round :: "rat \<Rightarrow> int" where
  "Math_round x = \<lfloor>x + 1 / 2\<rfloor>"

text \<open>The argument of \<^verbatim>\<open>expand\<close> in \<^verbatim>\<open>acquire\<close>: \<^verbatim>\<open>Math.round(this.count * 0.2) + 1\<close>.\<close>

definition growth :: "nat \<Rightarrow> nat" where
  "growth n = nat (Math_round (of_nat n * 0.2)) + 1"

section \<open>Queries, entities and the world\<close>

text \<open>
  An argument of a query: a component class, or an object
  \<^verbatim>\<open>{operator, Component}\<close> as \<^verbatim>\<open>Not\<close> builds it.
\<close>

datatype query_arg = Plain ComponentClass | Operator string ComponentClass

definition Not :: "ComponentClass \<Rightarrow> query_arg" where
  "Not C = Operator ''not'' C"

fun arg_name :: "query_arg \<Rightarrow> string" where
  "arg_name (Operator operator C) = (if operator = ''not'' then ''!'' else operator) @ name C"
| "arg_name (Plain C) = name C"

definition queryKey :: "query_arg list \<Rightarrow> string" where
  "queryKey Components = join ''-'' (sort (map arg_name Components))"

text \<open>
  A query. Of its event dispatcher the counter \<^verbatim>\<open>stats.fired\<close> is kept: listeners are
  added by systems only, and a listener only appends the entity to a list of its system.
\<close>

record Query =
  Components :: "ComponentClass list"
  NotComponents :: "ComponentClass list"
  entities :: "nat list"
  fired :: nat
  reactive :: bool
  key :: string

text \<open>
  An entity. \<^verbatim>\<open>components\<close> maps a class name to an instance;
  \<^verbatim>\<open>_componentsToRemove\<close> can hold \<^verbatim>\<open>undefined\<close> under a key. \<^verbatim>\<open>pool\<close> tells
  whether \<^verbatim>\<open>_pool\<close> is set: the only pool of entities is the world's
  \<^verbatim>\<open>entityPool\<close>.
\<close>

record Entity =
  uuid :: string
  componentTypes :: "ComponentClass list"
  components :: "nat dict"
  componentsToRemove :: "nat slot dict"
  queries :: "nat list"
  componentTypesToRemove :: "ComponentClass list"
  alive :: bool
  numSystemStateComponents :: int
  pool :: bool

text \<open>A counter of \<^verbatim>\<open>componentCounts\<close>: \<^verbatim>\<open>undefined++\<close> stores \<^verbatim>\<open>NaN\<close>.\<close>

datatype jsnum = Number int | NaN

text \<open>
  The world: the fields of \<^verbatim>\<open>World\<close>, then the stores of the objects it reaches
  (entities, component instances, queries, component pools) with the next free reference
  of each, and the sequence of values that \<^verbatim>\<open>Math.random() * 0xffffffff | 0\<close> will take.
\<close>

record World =
  entityPool :: ObjectPool
  entities :: "nat list"
  entitiesByUUID :: "string \<rightharpoonup> nat"
  entitiesWithComponentsToRemove :: "nat list"
  entitiesToRemove :: "nat list"
  deferredRemovalEnabled :: bool
  componentTypes :: "string \<rightharpoonup> ComponentClass"
  componentPools :: "string \<rightharpoonup> nat slot"
  componentCounts :: "string \<rightharpoonup> jsnum"
  queries :: "nat dict"
  enabled :: bool
  entity_store :: "nat \<Rightarrow> Entity"
  component_store :: "nat \<Rightarrow> Component"
  query_store :: "nat \<Rightarrow> Query"
  pool_store :: "nat \<Rightarrow> ObjectPool"
  next_entity :: nat
  next_component :: nat
  next_query :: nat
  next_pool :: nat
  random :: "nat \<Rightarrow> int32"
  random_next :: nat

definition upd_entity :: "nat \<Rightarrow> (Entity \<Rightarrow> Entity) \<Rightarrow> World \<Rightarrow> World" where
  "upd_entity e f w = w\<lparr>entity_store := (entity_store w)(e := f (entity_store w e))\<rparr>"

definition upd_component :: "nat \<Rightarrow> (Component \<Rightarrow> Component) \<Rightarrow> World \<Rightarrow> World" where
  "upd_component c f w = w\<lparr>component_store := (component_store w)(c := f (component_store w c))\<rparr>"

definition upd_query :: "nat \<Rightarrow> (Query \<Rightarrow> Query) \<Rightarrow> World \<Rightarrow> World" where
  "upd_query q f w = w\<lparr>query_store := (query_store w)(q := f (query_store w q))\<rparr>"

definition upd_pool :: "nat \<Rightarrow> (ObjectPool \<Rightarrow> ObjectPool) \<Rightarrow> World \<Rightarrow> World" where
  "upd_pool p f w = w\<lparr>pool_store := (pool_store w)(p := f (pool_store w p))\<rparr>"

text \<open>Reading a key of a dictionary whose values are all objects.\<close>

definition dict_ref :: "'v dict \<Rightarrow> string \<Rightarrow> 'v slot" where
  "dict_ref m k = (case map_of m k of None \<Rightarrow> Undefined | Some v \<Rightarrow> Obj v)"

text \<open>Reading a key of a map whose values can be \<^verbatim>\<open>undefined\<close>.\<close>

definition map_get :: "(string \<rightharpoonup> 'v slot) \<Rightarrow> string \<Rightarrow> 'v slot" where
  "map_get m k = (case m k of None \<Rightarrow> Undefined | Some v \<Rightarrow> v)"

section \<open>Pools of components and the pool of entities\<close>

text \<open>
  \<^verbatim>\<open>ObjectPool\<close> calls \<^verbatim>\<open>clone\<close> and \<^verbatim>\<open>copy\<close> of its items, which are those of
  \<^verbatim>\<open>Component\<close> in a pool of components and those of \<^verbatim>\<open>Entity\<close> in the world's
  \<^verbatim>\<open>entityPool\<close>. The methods are therefore given once for each class of item. A pool of
  components is a reference into \<open>pool_store\<close>.
\<close>

definition new_component :: "Component \<Rightarrow> World \<Rightarrow> nat \<times> World" where
  "new_component c w =
     (next_component w,
      w\<lparr>component_store := (component_store w)(next_component w := c),
        next_component := next_component w + 1\<rparr>)"

definition new_pool :: "nat \<Rightarrow> World \<Rightarrow> nat \<times> World" where
  "new_pool base w =
     (next_pool w,
      w\<lparr>pool_store := (pool_store w)(next_pool w := \<lparr>freeList = [], count = 0, baseObject = base\<rparr>),
        next_pool := next_pool w + 1\<rparr>)"

text \<open>One round of the loop of \<^verbatim>\<open>expand\<close>: clone the base object, set its pool, push it.\<close>

definition ComponentPool_expand_step :: "nat \<Rightarrow> World \<Rightarrow> World" where
  "ComponentPool_expand_step p w =
     (let base = component_store w (baseObject (pool_store w p));
          (clone, w1) = new_component ((Component_clone base)\<lparr>Component.pool := Some p\<rparr>) w
      in upd_pool p (\<lambda>P. P\<lparr>freeList := push (freeList P) clone\<rparr>) w1)"

fun ComponentPool_expand_loop :: "nat \<Rightarrow> nat \<Rightarrow> World \<Rightarrow> World" where
  "ComponentPool_expand_loop p 0 w = w"
| "ComponentPool_expand_loop p (Suc n) w =
     ComponentPool_expand_loop p n (ComponentPool_expand_step p w)"

definition ComponentPool_expand :: "nat \<Rightarrow> nat \<Rightarrow> World \<Rightarrow> World" where
  "ComponentPool_expand p n w =
     upd_pool p (\<lambda>P. P\<lparr>count := count P + n\<rparr>) (ComponentPool_expand_loop p n w)"

text \<open>
  \<^verbatim>\<open>acquire()\<close>. The growth step adds at least one item, so the free list is not
  empty when \<^verbatim>\<open>pop()\<close> takes its last item.
\<close>

definition ComponentPool_acquire :: "nat \<Rightarrow> World \<Rightarrow> nat \<times> World" where
  "ComponentPool_acquire p w =
     (let w1 = (if length (freeList (pool_store w p)) \<le> 0
                then ComponentPool_expand p (growth (count (pool_store w p))) w
                else w);
          item = last (freeList (pool_store w1 p))
      in (item, upd_pool p (\<lambda>P. P\<lparr>freeList := butlast (freeList P)\<rparr>) w1))"

definition ComponentPool_release :: "nat \<Rightarrow> nat \<Rightarrow> World \<Rightarrow> World" where
  "ComponentPool_release p item w =
     (let base = component_store w (baseObject (pool_store w p));
          w1 = upd_component item (\<lambda>c. Component_copy c (data base)) w
      in upd_pool p (\<lambda>P. P\<lparr>freeList := push (freeList P) item\<rparr>) w1)"

text \<open>\<^verbatim>\<open>Component.dispose()\<close>: back to its pool, when it has one.\<close>

definition Component_dispose :: "nat \<Rightarrow> World \<Rightarrow> World" where
  "Component_dispose c w =
     (case Component.pool (component_store w c) of
        None \<Rightarrow> w
      | Some p \<Rightarrow> ComponentPool_release p c w)"

text \<open>The next identifier: four draws of the random sequence.\<close>

definition draw_uuid :: "World \<Rightarrow> string \<times> World" where
  "draw_uuid w =
     (let n = random_next w
      in (generateUUID (random w n) (random w (n + 1)) (random w (n + 2)) (random w (n + 3)),
          w\<lparr>random_next := n + 4\<rparr>))"

text \<open>\<^verbatim>\<open>new Entity(world)\<close>.\<close>

definition Entity_new :: "World \<Rightarrow> nat \<times> World" where
  "Entity_new w =
     (let (u, w1) = draw_uuid w;
          e = next_entity w1
      in (e, w1\<lparr>entity_store := (entity_store w1)
                  (e := \<lparr> uuid = u, componentTypes = [], components = [],
                          componentsToRemove = [], queries = [], componentTypesToRemove = [],
                          alive = False, numSystemStateComponents = 0, pool = False \<rparr>),
                next_entity := e + 1\<rparr>))"

text \<open>\<^verbatim>\<open>Entity.copy(source)\<close>: a clone of every component of the source.\<close>

definition Entity_copy :: "nat \<Rightarrow> nat \<Rightarrow> World \<Rightarrow> World" where
  "Entity_copy e source w =
     fold (\<lambda>(componentName, sourceComponent) w.
             let (c, w1) = new_component (Component_clone (component_store w sourceComponent)) w
             in upd_entity e
                  (\<lambda>E. E\<lparr>components := dict_set (components E) componentName c,
                         Entity.componentTypes :=
                           push (Entity.componentTypes E)
                             (constructor (component_store w sourceComponent))\<rparr>) w1)
          (components (entity_store w source)) w"

definition Entity_clone :: "nat \<Rightarrow> World \<Rightarrow> nat \<times> World" where
  "Entity_clone source w = (let (e, w1) = Entity_new w in (e, Entity_copy e source w1))"

definition EntityPool_expand_step :: "World \<Rightarrow> World" where
  "EntityPool_expand_step w =
     (let (clone, w1) = Entity_clone (baseObject (entityPool w)) w;
          w2 = upd_entity clone (\<lambda>E. E\<lparr>Entity.pool := True\<rparr>) w1
      in w2\<lparr>entityPool := (entityPool w2)\<lparr>freeList := push (freeList (entityPool w2)) clone\<rparr>\<rparr>)"

fun EntityPool_expand_loop :: "nat \<Rightarrow> World \<Rightarrow> World" where
  "EntityPool_expand_loop 0 w = w"
| "EntityPool_expand_loop (Suc n) w = EntityPool_expand_loop n (EntityPool_expand_step w)"

definition EntityPool_expand :: "nat \<Rightarrow> World \<Rightarrow> World" where
  "EntityPool_expand n w =
     (let w1 = EntityPool_expand_loop n w
      in w1\<lparr>entityPool := (entityPool w1)\<lparr>count := count (entityPool w1) + n\<rparr>\<rparr>)"

definition EntityPool_acquire :: "World \<Rightarrow> nat \<times> World" where
  "EntityPool_acquire w =
     (let w1 = (if length (freeList (entityPool w)) \<le> 0
                then EntityPool_expand (growth (count (entityPool w))) w
                else w);
          item = last (freeList (entityPool w1))
      in (item, w1\<lparr>entityPool := (entityPool w1)\<lparr>freeList := butlast (freeList (entityPool w1))\<rparr>\<rparr>))"

definition EntityPool_release :: "nat \<Rightarrow> World \<Rightarrow> World" where
  "EntityPool_release item w =
     (let w1 = Entity_copy item (baseObject (entityPool w)) w
      in w1\<lparr>entityPool := (entityPool w1)\<lparr>freeList := push (freeList (entityPool w1)) item\<rparr>\<rparr>)"

section \<open>Entity: reading components\<close>

definition hasRemovedComponent :: "Entity \<Rightarrow> ComponentClass \<Rightarrow> bool" where
  "hasRemovedComponent E C = (indexOf (componentTypesToRemove E) C \<noteq> -1)"

definition hasComponent :: "Entity \<Rightarrow> ComponentClass \<Rightarrow> bool \<Rightarrow> bool" where
  "hasComponent E C includeRemoved =
     (indexOf (Entity.componentTypes E) C \<noteq> -1 \<or> (includeRemoved \<and> hasRemovedComponent E C))"

definition hasAllComponents :: "Entity \<Rightarrow> ComponentClass list \<Rightarrow> bool" where
  "hasAllComponents E Cs = list_all (\<lambda>C. hasComponent E C False) Cs"

definition hasAnyComponents :: "Entity \<Rightarrow> ComponentClass list \<Rightarrow> bool" where
  "hasAnyComponents E Cs = list_ex (\<lambda>C. hasComponent E C False) Cs"

definition getComponent :: "Entity \<Rightarrow> ComponentClass \<Rightarrow> bool \<Rightarrow> nat slot" where
  "getComponent E C includeRemoved =
     (let component = dict_ref (components E) (name C)
      in if \<not> truthy component \<and> includeRemoved
         then dict_get (componentsToRemove E) (name C)
         else component)"

definition getRemovedComponent :: "Entity \<Rightarrow> ComponentClass \<Rightarrow> nat slot" where
  "getRemovedComponent E C = dict_get (componentsToRemove E) (name C)"

section \<open>Query\<close>

datatype error = Error string

definition Query_match :: "Query \<Rightarrow> Entity \<Rightarrow> bool" where
  "Query_match Q E = (hasAllComponents E (Components Q) \<and> \<not> hasAnyComponents E (NotComponents Q))"

fun positive :: "query_arg list \<Rightarrow> ComponentClass list" where
  "positive [] = []"
| "positive (Plain C # cs) = C # positive cs"
| "positive (Operator operator C # cs) = positive cs"

fun negative :: "query_arg list \<Rightarrow> ComponentClass list" where
  "negative [] = []"
| "negative (Plain C # cs) = negative cs"
| "negative (Operator operator C # cs) = C # negative cs"

text \<open>
  The constructor. It throws before it has changed anything, so the error carries no
  world. Seeding pushes the query and the entity on each other's lists and dispatches
  nothing.
\<close>

definition Query_seed :: "nat \<Rightarrow> nat \<Rightarrow> World \<Rightarrow> World" where
  "Query_seed q entity w =
     (if Query_match (query_store w q) (entity_store w entity)
      then upd_query q (\<lambda>Q. Q\<lparr>Query.entities := push (Query.entities Q) entity\<rparr>)
             (upd_entity entity (\<lambda>E. E\<lparr>Entity.queries := push (Entity.queries E) q\<rparr>) w)
      else w)"

definition Query_new :: "query_arg list \<Rightarrow> World \<Rightarrow> error + nat \<times> World" where
  "Query_new Cs w =
     (if length (positive Cs) = 0 then Inl (Error ''Can't create a query without components'')
      else
        let q = next_query w;
            w1 = w\<lparr>query_store := (query_store w)
                    (q := \<lparr> Components = positive Cs, NotComponents = negative Cs,
                            entities = [], fired = 0, reactive = False, key = queryKey Cs \<rparr>),
                  next_query := q + 1\<rparr>
        in Inr (q, fold (Query_seed q) (World.entities w1) w1))"

definition dispatchEvent :: "nat \<Rightarrow> World \<Rightarrow> World" where
  "dispatchEvent q w = upd_query q (\<lambda>Q. Q\<lparr>fired := fired Q + 1\<rparr>) w"

definition Query_addEntity :: "nat \<Rightarrow> nat \<Rightarrow> World \<Rightarrow> World" where
  "Query_addEntity q entity w =
     dispatchEvent q
       (upd_query q (\<lambda>Q. Q\<lparr>Query.entities := push (Query.entities Q) entity\<rparr>)
          (upd_entity entity (\<lambda>E. E\<lparr>Entity.queries := push (Entity.queries E) q\<rparr>) w))"

definition Query_removeEntity :: "nat \<Rightarrow> nat \<Rightarrow> World \<Rightarrow> World" where
  "Query_removeEntity q entity w =
     (let index = indexOf (Query.entities (query_store w q)) entity
      in if index \<noteq> -1 then
           let w1 = upd_query q (\<lambda>Q. Q\<lparr>Query.entities := splice1 index (Query.entities Q)\<rparr>) w;
               index' = indexOf (Entity.queries (entity_store w1 entity)) q;
               w2 = upd_entity entity
                      (\<lambda>E. E\<lparr>Entity.queries := splice1 index' (Entity.queries E)\<rparr>) w1
           in dispatchEvent q w2
         else w)"

section \<open>World: the query index and the notifications\<close>

definition getQuery :: "query_arg list \<Rightarrow> World \<Rightarrow> error + nat \<times> World" where
  "getQuery Cs w =
     (let key = queryKey Cs
      in case dict_ref (World.queries w) key of
           Obj query \<Rightarrow> Inr (query, w)
         | Undefined \<Rightarrow>
             (case Query_new Cs w of
                Inl err \<Rightarrow> Inl err
              | Inr (query, w1) \<Rightarrow>
                  Inr (query, w1\<lparr>World.queries := dict_set (World.queries w1) key query\<rparr>)))"

definition getComponentPool :: "World \<Rightarrow> ComponentClass \<Rightarrow> nat slot" where
  "getComponentPool w C = map_get (componentPools w) (name C)"

text \<open>\<^verbatim>\<open>componentCounts[name]++\<close> and \<^verbatim>\<open>--\<close>: a missing counter becomes \<^verbatim>\<open>NaN\<close>.\<close>

definition count_add :: "(string \<rightharpoonup> jsnum) \<Rightarrow> string \<Rightarrow> int \<Rightarrow> (string \<rightharpoonup> jsnum)" where
  "count_add m k d = m(k \<mapsto> (case m k of Some (Number n) \<Rightarrow> Number (n + d) | _ \<Rightarrow> NaN))"

definition onComponentAdded_query :: "nat \<Rightarrow> ComponentClass \<Rightarrow> nat \<Rightarrow> World \<Rightarrow> World" where
  "onComponentAdded_query entity C query w =
     (let Q = query_store w query
      in if indexOf (NotComponents Q) C \<noteq> -1 \<and> indexOf (Query.entities Q) entity \<noteq> -1
         then Query_removeEntity query entity w
         else if indexOf (Components Q) C = -1 \<or> \<not> Query_match Q (entity_store w entity) \<or>
                 indexOf (Query.entities Q) entity \<noteq> -1
         then w
         else Query_addEntity query entity w)"

definition onComponentAdded :: "nat \<Rightarrow> ComponentClass \<Rightarrow> World \<Rightarrow> World" where
  "onComponentAdded entity C w =
     (let w1 = w\<lparr>componentCounts := count_add (componentCounts w) (name C) 1\<rparr>
      in fold (\<lambda>(queryName, query). onComponentAdded_query entity C query) (World.queries w1) w1)"

definition queueComponentRemoval :: "nat \<Rightarrow> World \<Rightarrow> World" where
  "queueComponentRemoval entity w =
     (let index = indexOf (entitiesWithComponentsToRemove w) entity
      in if index = -1
         then w\<lparr>entitiesWithComponentsToRemove := push (entitiesWithComponentsToRemove w) entity\<rparr>
         else w)"

definition onRemoveComponent_query :: "nat \<Rightarrow> ComponentClass \<Rightarrow> nat \<Rightarrow> World \<Rightarrow> World" where
  "onRemoveComponent_query entity C query w =
     (let Q = query_store w query
      in if indexOf (NotComponents Q) C \<noteq> -1 \<and> \<not> indexOf (Query.entities Q) entity \<noteq> -1 \<and>
            Query_match Q (entity_store w entity)
         then Query_addEntity query entity w
         else if indexOf (Components Q) C \<noteq> -1 \<and> indexOf (Query.entities Q) entity \<noteq> -1 \<and>
                 \<not> Query_match Q (entity_store w entity)
         then Query_removeEntity query entity w
         else w)"

definition onRemoveComponent :: "nat \<Rightarrow> ComponentClass \<Rightarrow> World \<Rightarrow> World" where
  "onRemoveComponent entity C w =
     (let w1 = w\<lparr>componentCounts := count_add (componentCounts w) (name C) (-1)\<rparr>
      in fold (\<lambda>(queryName, query). onRemoveComponent_query entity C query) (World.queries w1) w1)"

definition queueEntityDisposal :: "nat \<Rightarrow> World \<Rightarrow> World" where
  "queueEntityDisposal entity w = w\<lparr>entitiesToRemove := push (entitiesToRemove w) entity\<rparr>"

definition onDisposeEntity :: "nat \<Rightarrow> World \<Rightarrow> World" where
  "onDisposeEntity entity w =
     fold (\<lambda>(queryName, query) w.
             if indexOf (Entity.queries (entity_store w entity)) query \<noteq> -1
             then Query_removeEntity query entity w
             else w)
          (World.queries w) w"

definition onEntityDisposed :: "nat \<Rightarrow> World \<Rightarrow> World" where
  "onEntityDisposed entity w =
     (case entitiesByUUID w (uuid (entity_store w entity)) of
        None \<Rightarrow> w
      | Some _ \<Rightarrow>
          let w1 = w\<lparr>entitiesByUUID := (entitiesByUUID w)(uuid (entity_store w entity) := None)\<rparr>;
              index = indexOf (World.entities w1) entity
          in if index \<noteq> -1
             then w1\<lparr>World.entities := splice1 index (World.entities w1)\<rparr>
             else w1)"

section \<open>Entity: adding, removing and disposing\<close>

text \<open>
  \<^verbatim>\<open>addComponent(Component, props)\<close>. The result is the value returned: the entity, or
  \<^verbatim>\<open>undefined\<close> from the bare \<^verbatim>\<open>return\<close> of the first line.
\<close>

definition addComponent :: "nat \<Rightarrow> ComponentClass \<Rightarrow> prim dict slot \<Rightarrow> World \<Rightarrow> nat slot \<times> World" where
  "addComponent entity C props w =
     (if indexOf (Entity.componentTypes (entity_store w entity)) C \<noteq> -1 then (Undefined, w)
      else
        let w1 = upd_entity entity
                   (\<lambda>E. E\<lparr>Entity.componentTypes := push (Entity.componentTypes E) C\<rparr>) w;
            w2 = (if isSystemStateComponent C
                  then upd_entity entity
                         (\<lambda>E. E\<lparr>numSystemStateComponents := numSystemStateComponents E + 1\<rparr>) w1
                  else w1);
            componentPool = getComponentPool w2 C;
            (component, w3) =
               (case componentPool of
                  Undefined \<Rightarrow> new_component (Component_new C props) w2
                | Obj p \<Rightarrow> ComponentPool_acquire p w2);
            w4 = (case (componentPool, props) of
                    (Obj p, Obj source) \<Rightarrow> upd_component component (\<lambda>c. Component_copy c source) w3
                  | _ \<Rightarrow> w3);
            w5 = upd_entity entity
                   (\<lambda>E. E\<lparr>components := dict_set (components E) (name C) component\<rparr>) w4;
            w6 = (if alive (entity_store w5 entity) then onComponentAdded entity C w5 else w5)
        in (Obj entity, w6))"

text \<open>
  The loop \<^verbatim>\<open>for (i = 0; i < this.queries.length; i++) this.queries[i].removeEntity(this)\<close>
  of \<^verbatim>\<open>dispose\<close>: \<^verbatim>\<open>removeEntity\<close> splices the very array the loop walks.
\<close>

lemma length_splice1: "length (splice1 i xs) \<le> length xs"
  by (simp add: splice1_def Let_def)

lemma Query_removeEntity_queries_length:
  "length (Entity.queries (entity_store (Query_removeEntity q e w) e'))
     \<le> length (Entity.queries (entity_store w e'))"
  by (simp add: Query_removeEntity_def Let_def dispatchEvent_def upd_query_def upd_entity_def
      length_splice1)

function dispose_queries :: "nat \<Rightarrow> nat \<Rightarrow> World \<Rightarrow> World" where
  "dispose_queries entity i w =
     (if i < length (Entity.queries (entity_store w entity))
      then dispose_queries entity (i + 1)
             (Query_removeEntity (Entity.queries (entity_store w entity) ! i) entity w)
      else w)"
  by pat_completeness auto
termination
proof (relation "measure (\<lambda>(entity, i, w). length (Entity.queries (entity_store w entity)) - i)")
  show "wf (measure (\<lambda>(entity, i, w). length (Entity.queries (entity_store w entity)) - i))"
    by simp
next
  fix entity i and w :: World
  assume "i < length (Entity.queries (entity_store w entity))"
  then show "((entity, i + 1,
               Query_removeEntity (Entity.queries (entity_store w entity) ! i) entity w),
              (entity, i, w))
             \<in> measure (\<lambda>(entity, i, w). length (Entity.queries (entity_store w entity)) - i)"
    using Query_removeEntity_queries_length
            [of "Entity.queries (entity_store w entity) ! i" entity w entity]
    by simp
qed

declare dispose_queries.simps [simp del]

text \<open>\<^verbatim>\<open>dispose(immediately)\<close>.\<close>

definition Entity_dispose :: "nat \<Rightarrow> bool \<Rightarrow> World \<Rightarrow> World" where
  "Entity_dispose entity immediately w =
     (let w1 = (if alive (entity_store w entity) then onDisposeEntity entity w else w)
      in if immediately then
           let (u, w2) = draw_uuid w1;
               w3 = upd_entity entity (\<lambda>E. E\<lparr>uuid := u, alive := True\<rparr>) w2;
               w4 = dispose_queries entity 0 w3;
               w5 = fold (\<lambda>(componentName, component). Component_dispose component)
                      (components (entity_store w4 entity)) w4;
               w6 = upd_entity entity
                      (\<lambda>E. E\<lparr>components := [], componentsToRemove := [], Entity.queries := [],
                             Entity.componentTypes := [], componentTypesToRemove := []\<rparr>) w5;
               w7 = (if Entity.pool (entity_store w6 entity) then EntityPool_release entity w6
                     else w6)
           in onEntityDisposed entity w7
         else
           queueEntityDisposal entity (upd_entity entity (\<lambda>E. E\<lparr>alive := False\<rparr>) w1))"

text \<open>
  \<^verbatim>\<open>removeComponent(Component, immediately)\<close>, with the value it returns. The call
  \<^verbatim>\<open>this.dispose()\<close> at its end passes no argument: \<^verbatim>\<open>immediately\<close> is
  \<^verbatim>\<open>undefined\<close> there.
\<close>

definition removeComponent :: "nat \<Rightarrow> ComponentClass \<Rightarrow> bool \<Rightarrow> World \<Rightarrow> bool \<times> World" where
  "removeComponent entity C immediately w =
     (let componentName = name C;
          w1 = (if \<not> truthy (dict_get (componentsToRemove (entity_store w entity)) componentName)
                then
                  let wa = upd_entity entity
                             (\<lambda>E. E\<lparr>components := dict_delete (components E) componentName\<rparr>) w;
                      index = indexOf (Entity.componentTypes (entity_store wa entity)) C;
                      wb = upd_entity entity
                             (\<lambda>E. E\<lparr>Entity.componentTypes :=
                                      splice1 index (Entity.componentTypes E)\<rparr>) wa
                  in if alive (entity_store wb entity) then onRemoveComponent entity C wb else wb
                else w);
          component = dict_ref (components (entity_store w1 entity)) componentName;
          w2 = (if immediately then
                  let wa = (case component of
                              Obj c \<Rightarrow> Component_dispose c w1
                            | Undefined \<Rightarrow> w1)
                  in if truthy (dict_get (componentsToRemove (entity_store wa entity)) componentName)
                     then
                       let wb = upd_entity entity
                                  (\<lambda>E. E\<lparr>componentsToRemove :=
                                           dict_delete (componentsToRemove E) componentName\<rparr>) wa;
                           index = indexOf (componentTypesToRemove (entity_store wb entity)) C
                       in if index \<noteq> -1
                          then upd_entity entity
                                 (\<lambda>E. E\<lparr>componentTypesToRemove :=
                                          splice1 index (componentTypesToRemove E)\<rparr>) wb
                          else wb
                     else wa
                else if alive (entity_store w1 entity) then
                  queueComponentRemoval entity
                    (upd_entity entity
                       (\<lambda>E. E\<lparr>componentTypesToRemove := push (componentTypesToRemove E) C,
                              componentsToRemove :=
                                dict_set (componentsToRemove E) componentName component\<rparr>) w1)
                else w1);
          w3 = (if isSystemStateComponent C then
                  let wa = upd_entity entity
                             (\<lambda>E. E\<lparr>numSystemStateComponents :=
                                      numSystemStateComponents E - 1\<rparr>) w2
                  in if numSystemStateComponents (entity_store wa entity) = 0 \<and>
                        \<not> alive (entity_store wa entity)
                     then Entity_dispose entity False wa
                     else wa
                else w2)
      in (True, w3))"

section \<open>World: registering components, creating entities\<close>

text \<open>
  The second argument of \<^verbatim>\<open>registerComponent\<close>: \<^verbatim>\<open>false\<close> for no pool, or nothing
  for a new pool of the class. (A pool object passed by the caller is not modelled.)
\<close>

datatype pool_arg = NoPool | DefaultPool

definition registerComponent :: "ComponentClass \<Rightarrow> pool_arg \<Rightarrow> World \<Rightarrow> World" where
  "registerComponent C objectPool w =
     (case World.componentTypes w (name C) of
        Some _ \<Rightarrow> w
      | None \<Rightarrow>
          let w1 = w\<lparr>World.componentTypes := (World.componentTypes w)(name C \<mapsto> C),
                    componentCounts := (componentCounts w)(name C \<mapsto> Number 0)\<rparr>
          in case objectPool of
               NoPool \<Rightarrow> w1\<lparr>componentPools := (componentPools w1)(name C \<mapsto> Undefined)\<rparr>
             | DefaultPool \<Rightarrow>
                 let (base, w2) = new_component (Component_new C Undefined) w1;
                     (p, w3) = new_pool base w2
                 in w3\<lparr>componentPools := (componentPools w3)(name C \<mapsto> Obj p)\<rparr>)"

definition addEntity :: "nat \<Rightarrow> World \<Rightarrow> nat \<times> World" where
  "addEntity entity w =
     (case entitiesByUUID w (uuid (entity_store w entity)) of
        Some _ \<Rightarrow> (entity, w)
      | None \<Rightarrow>
          let w1 = w\<lparr>entitiesByUUID := (entitiesByUUID w)(uuid (entity_store w entity) \<mapsto> entity),
                    World.entities := push (World.entities w) entity\<rparr>;
              w2 = upd_entity entity (\<lambda>E. E\<lparr>alive := True\<rparr>) w1
          in (entity, fold (onComponentAdded entity)
                        (Entity.componentTypes (entity_store w2 entity)) w2))"

definition createDetachedEntity :: "World \<Rightarrow> nat \<times> World" where
  "createDetachedEntity w = EntityPool_acquire w"

definition createEntity :: "World \<Rightarrow> nat \<times> World" where
  "createEntity w = (let (entity, w1) = createDetachedEntity w in addEntity entity w1)"

text \<open>
  \<^verbatim>\<open>new World()\<close>, given the random sequence. References not yet allocated hold blank
  objects.
\<close>

definition blank_world :: "(nat \<Rightarrow> int32) \<Rightarrow> World" where
  "blank_world rnd =
     \<lparr> entityPool = \<lparr>freeList = [], count = 0, baseObject = 0\<rparr>,
       entities = [], entitiesByUUID = Map.empty,
       entitiesWithComponentsToRemove = [], entitiesToRemove = [],
       deferredRemovalEnabled = True,
       componentTypes = Map.empty, componentPools = Map.empty, componentCounts = Map.empty,
       queries = [], enabled = True,
       entity_store = (\<lambda>_. \<lparr> uuid = [], componentTypes = [], components = [],
                               componentsToRemove = [], queries = [],
                               componentTypesToRemove = [], alive = False,
                               numSystemStateComponents = 0, pool = False \<rparr>),
       component_store = (\<lambda>_. \<lparr> constructor = \<lparr>class_id = 0, name = [],
                                    isSystemStateComponent = False, schema = []\<rparr>,
                                  data = [], pool = None \<rparr>),
       query_store = (\<lambda>_. \<lparr> Components = [], NotComponents = [], entities = [], fired = 0,
                              reactive = False, key = [] \<rparr>),
       pool_store = (\<lambda>_. \<lparr>freeList = [], count = 0, baseObject = 0\<rparr>),
       next_entity = 0, next_component = 0, next_query = 0, next_pool = 0,
       random = rnd, random_next = 0 \<rparr>"

definition World_new :: "(nat \<Rightarrow> int32) \<Rightarrow> World" where
  "World_new rnd =
     (let (base, w) = Entity_new (blank_world rnd)
      in w\<lparr>entityPool := \<lparr>freeList = [], count = 0, baseObject = base\<rparr>\<rparr>)"

text \<open>The uppercase hexadecimal digits, for stating the format.\<close>

definition HEX :: string where
  "HEX = ''0123456789ABCDEF''"

definition is_HEX :: "char \<Rightarrow> bool" where
  "is_HEX c = (c \<in> set HEX)"

section \<open>Example classes and worlds\<close>

definition compA :: ComponentClass where
  "compA = \<lparr>class_id = 1, name = ''A'', isSystemStateComponent = False,
             schema = [(''x'', Num 0)]\<rparr>"

definition compB :: ComponentClass where
  "compB = \<lparr>class_id = 2, name = ''B'', isSystemStateComponent = False, schema = []\<rparr>"

text \<open>A new world with the two classes registered.\<close>

definition world0 :: World where
  "world0 =
     registerComponent compB DefaultPool
       (registerComponent compA DefaultPool (World_new (\<lambda>_. 0)))"

text \<open>
  After \<^verbatim>\<open>createEntity().addComponent(A)\<close>: the entity is reference 1 (reference 0 is
  the base object of the entity pool), alive, with \<^verbatim>\<open>A\<close> attached.
\<close>

definition world1 :: World where
  "world1 = snd (addComponent 1 compA Undefined (snd (createEntity world0)))"

text \<open>
  The world after \<^verbatim>\<open>e.dispose()\<close>, \<^verbatim>\<open>getQuery([A])\<close> and
  \<^verbatim>\<open>getQuery([A, Not(B)])\<close> on \<open>world1\<close>: the entity is not alive and queued for
  removal, still in the world's entity list with \<^verbatim>\<open>A\<close> attached, and both
  constructors have put it in their query.
\<close>

definition world_dead :: World where
  "world_dead =
     snd (projr (getQuery [Plain compA, Not compB]
       (snd (projr (getQuery [Plain compA] (Entity_dispose 1 False world1))))))"

text \<open>A world whose component pool 0 has handed out all of its 11 items.\<close>

definition pool11_world :: World where
  "pool11_world =
     (blank_world (\<lambda>_. 0))
       \<lparr>entityPool := \<lparr>freeList = [], count = 11, baseObject = 0\<rparr>,
        pool_store := (\<lambda>_. \<lparr>freeList = [], count = 11, baseObject = 0\<rparr>)\<rparr>"

section \<open>Properties of generateUUID\<close>

lemma toUpperCase_hex_digits: "map toUpperCase_char hex_digits = HEX"
  by (simp add: toUpperCase_char_def hex_digits_def HEX_def)

lemma upper_hex: "n < 16 \<Longrightarrow> toUpperCase_char (hex_digits ! n) = HEX ! n"
proof -
  assume "n < 16"
  then have "n < length hex_digits" by (simp add: hex_digits_def)
  then have "map toUpperCase_char hex_digits ! n = toUpperCase_char (hex_digits ! n)"
    by (rule nth_map)
  then show ?thesis by (simp only: toUpperCase_hex_digits)
qed

lemma toString16_small: "n < 16 \<Longrightarrow> toString16 n = [hex_digits ! n]"
  by (subst toString16.simps) simp

lemma toString16_byte:
  "16 \<le> n \<Longrightarrow> n < 256 \<Longrightarrow> toString16 n = [hex_digits ! (n div 16), hex_digits ! (n mod 16)]"
  by (subst toString16.simps) (simp add: toString16_small less_mult_imp_div_less)

lemma lut_at: "n < 256 \<Longrightarrow> lut ! n = (if n < 16 then ''0'' else []) @ toString16 n"
  unfolding lut_def by (subst nth_map) (simp_all del: upt_rec_numeral)

lemma lut_nth: "n < 256 \<Longrightarrow> toUpperCase (lut ! n) = [HEX ! (n div 16), HEX ! (n mod 16)]"
proof (cases "n < 16")
  case True
  then show ?thesis
    using upper_hex[of n] upper_hex[of 0]
    by (simp add: lut_at toUpperCase_def toString16_small hex_digits_def)
next
  case False
  assume "n < 256"
  with False have "n div 16 < 16" by (simp add: less_mult_imp_div_less)
  with False \<open>n < 256\<close> show ?thesis
    using upper_hex[of "n div 16"] upper_hex[of "n mod 16"]
    by (simp add: lut_at toUpperCase_def toString16_byte)
qed

lemma byte_lt: "unat ((w::int32) AND 0xff) < 256"
  using word_and_le1[of w "0xff"] by (simp add: word_le_nat_alt)

lemma version_byte: "unat (((w::int32) AND 0x0f) OR 0x40) = 64 + unat w mod 16"
proof -
  have a: "(w AND 0x0f) AND 0x40 = 0"
    by (simp add: and.assoc)
  have "w AND 0x0f = take_bit 4 w"
    by (simp add: take_bit_eq_mask mask_eq_exp_minus_1)
  moreover have "unat (take_bit 4 w) = take_bit 4 (unat w)"
    by (rule unsigned_take_bit_eq)
  ultimately have b: "unat (w AND 0x0f) = unat w mod 16"
    by (simp only: take_bit_eq_mod) simp
  have "(w AND 0x0f) OR 0x40 = (w AND 0x0f) + 0x40"
    using disjunctive_add_eq_or[OF a] by simp
  then show ?thesis
    using b by (simp add: unat_word_ariths)
qed

lemma variant_byte: "unat (((w::int32) AND 0x3f) OR 0x80) = 128 + unat w mod 64"
proof -
  have a: "(w AND 0x3f) AND 0x80 = 0"
    by (simp add: and.assoc)
  have "w AND 0x3f = take_bit 6 w"
    by (simp add: take_bit_eq_mask mask_eq_exp_minus_1)
  moreover have "unat (take_bit 6 w) = take_bit 6 (unat w)"
    by (rule unsigned_take_bit_eq)
  ultimately have b: "unat (w AND 0x3f) = unat w mod 64"
    by (simp only: take_bit_eq_mod) simp
  have "(w AND 0x3f) OR 0x80 = (w AND 0x3f) + 0x80"
    using disjunctive_add_eq_or[OF a] by simp
  then show ?thesis
    using b by (simp add: unat_word_ariths)
qed

lemma HEX_nth: "n < 16 \<Longrightarrow> is_HEX (HEX ! n)"
  using nth_mem[of n HEX] by (simp add: is_HEX_def HEX_def)

lemma byte_str:
  "n < 256 \<Longrightarrow> \<exists>a b. toUpperCase (lut ! n) = [a, b] \<and> is_HEX a \<and> is_HEX b"
  by (simp add: lut_nth HEX_nth less_mult_imp_div_less)

lemma byte_obtain:
  obtains a b where
    "toUpperCase (lut ! unat ((w::int32) AND 0xff)) = [a, b]" "is_HEX a" "is_HEX b"
  using byte_str[OF byte_lt[of w]] by blast

lemma toUpperCase_append: "toUpperCase (a @ b) = toUpperCase a @ toUpperCase b"
  by (simp add: toUpperCase_def)

lemma toUpperCase_dash: "toUpperCase (CHR ''-'' # s) = CHR ''-'' # toUpperCase s"
  by (simp add: toUpperCase_def toUpperCase_char_def)

lemma div16_version: "(m::nat) < 16 \<Longrightarrow> (64 + m) div 16 = 4 \<and> (64 + m) mod 16 = m"
  using div_mult_self3[of 16 4 m] mod_mult_self3[of 4 16 m] by simp

lemma div16_variant: "(128 + m) div 16 = 8 + m div 16 \<and> (128 + m) mod 16 = (m::nat) mod 16"
  using div_mult_self3[of 16 8 m] mod_mult_self3[of 8 16 m] by simp

lemma HEX_variant: "(k::nat) < 4 \<Longrightarrow> HEX ! (8 + k) \<in> set ''89AB''"
proof -
  assume "k < 4"
  then have "k = 0 \<or> k = 1 \<or> k = 2 \<or> k = 3" by linarith
  then show ?thesis by (auto simp: HEX_def)
qed

lemma version_str:
  "toUpperCase (lut ! unat (((w::int32) AND 0x0f) OR 0x40)) = [CHR ''4'', HEX ! (unat w mod 16)]"
proof -
  have "unat w mod 16 < 16" by simp
  then have "(64 + unat w mod 16) div 16 = 4" "(64 + unat w mod 16) mod 16 = unat w mod 16"
    using div16_version by blast+
  moreover have "HEX ! 4 = CHR ''4''" by (simp add: HEX_def)
  moreover have "64 + unat w mod 16 < 256" by simp
  ultimately show ?thesis by (simp only: version_byte lut_nth)
qed

lemma variant_str:
  "\<exists>a b. toUpperCase (lut ! unat (((w::int32) AND 0x3f) OR 0x80)) = [a, b] \<and>
         a \<in> set ''89AB'' \<and> is_HEX b"
proof -
  have "unat w mod 64 div 16 < 4" by (simp add: less_mult_imp_div_less)
  then have "HEX ! (8 + unat w mod 64 div 16) \<in> set ''89AB''" by (rule HEX_variant)
  moreover have "(128 + unat w mod 64) div 16 = 8 + unat w mod 64 div 16"
    using div16_variant by blast
  moreover have "128 + unat w mod 64 < 256" by simp
  moreover have "is_HEX (HEX ! ((128 + unat w mod 64) mod 16))" by (rule HEX_nth) simp
  ultimately show ?thesis by (simp only: variant_byte lut_nth) simp
qed

text \<open>
  C9. Whatever the four random draws are, the string returned by \<^verbatim>\<open>generateUUID\<close> has
  36 characters: five groups of 8, 4, 4, 4 and 12 uppercase hexadecimal digits separated by
  hyphens, where the first digit of the third group (the 13th hexadecimal digit) is 4 and
  the first digit of the fourth group (the 17th) is one of 8, 9, A, B.
\<close>

theorem generateUUID_format:
  "\<exists>g1 g2 g3 g4 g5.
     generateUUID d0 d1 d2 d3 = g1 @ ''-'' @ g2 @ ''-'' @ g3 @ ''-'' @ g4 @ ''-'' @ g5 \<and>
     length g1 = 8 \<and> length g2 = 4 \<and> length g3 = 4 \<and> length g4 = 4 \<and> length g5 = 12 \<and>
     list_all is_HEX (g1 @ g2 @ g3 @ g4 @ g5) \<and>
     hd g3 = CHR ''4'' \<and> hd g4 \<in> set ''89AB'' \<and>
     length (generateUUID d0 d1 d2 d3) = 36"
proof -
  obtain a1 b1 where e1:
    "toUpperCase (lut ! unat (d0 AND 0xff)) = [a1, b1]" "is_HEX a1" "is_HEX b1"
    by (rule byte_obtain)
  obtain a2 b2 where e2:
    "toUpperCase (lut ! unat (shr d0 8 AND 0xff)) = [a2, b2]" "is_HEX a2" "is_HEX b2"
    by (rule byte_obtain)
  obtain a3 b3 where e3:
    "toUpperCase (lut ! unat (shr d0 16 AND 0xff)) = [a3, b3]" "is_HEX a3" "is_HEX b3"
    by (rule byte_obtain)
  obtain a4 b4 where e4:
    "toUpperCase (lut ! unat (shr d0 24 AND 0xff)) = [a4, b4]" "is_HEX a4" "is_HEX b4"
    by (rule byte_obtain)
  obtain a5 b5 where e5:
    "toUpperCase (lut ! unat (d1 AND 0xff)) = [a5, b5]" "is_HEX a5" "is_HEX b5"
    by (rule byte_obtain)
  obtain a6 b6 where e6:
    "toUpperCase (lut ! unat (shr d1 8 AND 0xff)) = [a6, b6]" "is_HEX a6" "is_HEX b6"
    by (rule byte_obtain)
  have e7:
    "toUpperCase (lut ! unat (shr d1 16 AND 0x0f OR 0x40)) =
       [CHR ''4'', HEX ! (unat (shr d1 16) mod 16)]"
    by (rule version_str)
  have h7: "is_HEX (HEX ! (unat (shr d1 16) mod 16))"
    by (rule HEX_nth) simp
  obtain a8 b8 where e8:
    "toUpperCase (lut ! unat (shr d1 24 AND 0xff)) = [a8, b8]" "is_HEX a8" "is_HEX b8"
    by (rule byte_obtain)
  obtain a9 b9 where e9:
    "toUpperCase (lut ! unat (d2 AND 0x3f OR 0x80)) = [a9, b9]" "a9 \<in> set ''89AB''" "is_HEX b9"
    using variant_str[of d2] by blast
  have h4: "is_HEX CHR ''4''" by (simp add: is_HEX_def HEX_def)
  have h9: "is_HEX a9" using e9(2) by (auto simp: is_HEX_def HEX_def)
  obtain a10 b10 where e10:
    "toUpperCase (lut ! unat (shr d2 8 AND 0xff)) = [a10, b10]" "is_HEX a10" "is_HEX b10"
    by (rule byte_obtain)
  obtain a11 b11 where e11:
    "toUpperCase (lut ! unat (shr d2 16 AND 0xff)) = [a11, b11]" "is_HEX a11" "is_HEX b11"
    by (rule byte_obtain)
  obtain a12 b12 where e12:
    "toUpperCase (lut ! unat (shr d2 24 AND 0xff)) = [a12, b12]" "is_HEX a12" "is_HEX b12"
    by (rule byte_obtain)
  obtain a13 b13 where e13:
    "toUpperCase (lut ! unat (d3 AND 0xff)) = [a13, b13]" "is_HEX a13" "is_HEX b13"
    by (rule byte_obtain)
  obtain a14 b14 where e14:
    "toUpperCase (lut ! unat (shr d3 8 AND 0xff)) = [a14, b14]" "is_HEX a14" "is_HEX b14"
    by (rule byte_obtain)
  obtain a15 b15 where e15:
    "toUpperCase (lut ! unat (shr d3 16 AND 0xff)) = [a15, b15]" "is_HEX a15" "is_HEX b15"
    by (rule byte_obtain)
  obtain a16 b16 where e16:
    "toUpperCase (lut ! unat (shr d3 24 AND 0xff)) = [a16, b16]" "is_HEX a16" "is_HEX b16"
    by (rule byte_obtain)
  have eq: "generateUUID d0 d1 d2 d3 =
      [a1, b1, a2, b2, a3, b3, a4, b4] @ ''-'' @ [a5, b5, a6, b6] @ ''-'' @
      [CHR ''4'', HEX ! (unat (shr d1 16) mod 16), a8, b8] @ ''-'' @ [a9, b9, a10, b10] @ ''-'' @
      [a11, b11, a12, b12, a13, b13, a14, b14, a15, b15, a16, b16]"
    by (simp add: generateUUID_def toUpperCase_append toUpperCase_dash
        e1(1) e2(1) e3(1) e4(1) e5(1) e6(1) e7 e8(1) e9(1) e10(1) e11(1) e12(1) e13(1)
        e14(1) e15(1) e16(1))
  show ?thesis
    apply (rule exI[of _ "[a1, b1, a2, b2, a3, b3, a4, b4]"])
    apply (rule exI[of _ "[a5, b5, a6, b6]"])
    apply (rule exI[of _ "[CHR ''4'', HEX ! (unat (shr d1 16) mod 16), a8, b8]"])
    apply (rule exI[of _ "[a9, b9, a10, b10]"])
    apply (rule exI[of _ "[a11, b11, a12, b12, a13, b13, a14, b14, a15, b15, a16, b16]"])
    using h4 e1(2,3) e2(2,3) e3(2,3) e4(2,3) e5(2,3) e6(2,3) h7 e8(2,3) e9(2,3) h9 e10(2,3)
      e11(2,3) e12(2,3) e13(2,3) e14(2,3) e15(2,3) e16(2,3)
    by (simp add: eq)
qed

section \<open>Evaluating the example worlds\<close>

lemmas model_defs =
  World_new_def blank_world_def Entity_new_def draw_uuid_def registerComponent_def
  new_component_def new_pool_def Component_new_def createEntity_def createDetachedEntity_def
  EntityPool_acquire_def EntityPool_expand_def EntityPool_expand_step_def Entity_clone_def
  Entity_copy_def addEntity_def upd_entity_def upd_pool_def upd_component_def upd_query_def
  push_def addComponent_def getComponentPool_def map_get_def ComponentPool_acquire_def
  ComponentPool_expand_def ComponentPool_expand_step_def Component_clone_def Component_copy_def
  dict_set_def dict_ref_def dict_get_def onComponentAdded_def count_add_def Let_def

section \<open>ObjectPool: how much a pool grows\<close>

lemma growth_eq: "growth n = (n + 2) div 5 + 1"
proof -
  have "(of_nat n * 0.2 + 1 / 2 :: rat) = of_int (2 * int n + 5) / of_int 10"
    by (simp add: field_simps)
  then have "Math_round (of_nat n * 0.2) = (2 * int n + 5) div 10"
    unfolding Math_round_def by (simp only: floor_divide_of_int_eq)
  moreover have "(2 * int n + 5) div 10 = (int n + 2) div 5"
    by linarith
  ultimately show ?thesis
    by (simp add: growth_def nat_div_distrib nat_add_distrib)
qed

lemma ceil_eq: "nat \<lceil>(0.2::rat) * of_nat n\<rceil> = (n + 4) div 5"
proof -
  have "(0.2::rat) * of_nat n = of_int (int n) / of_int 5" by simp
  then have "\<lceil>(0.2::rat) * of_nat n\<rceil> = - ((- int n) div 5)"
    by (simp only: ceiling_divide_eq_div)
  then show ?thesis by (simp add: nat_div_distrib) 
qed

lemma fold_invariant:
  "(\<And>x s. x \<in> set xs \<Longrightarrow> g (f x s) = g s) \<Longrightarrow> g (fold f xs s) = g s"
  by (induction xs arbitrary: s) simp_all

lemma ComponentPool_expand_step_pool:
  "pool_store (ComponentPool_expand_step p w) p =
     (pool_store w p)\<lparr>freeList := push (freeList (pool_store w p)) (next_component w)\<rparr>"
  by (simp add: ComponentPool_expand_step_def new_component_def upd_pool_def Let_def)

lemma ComponentPool_expand_step_next:
  "next_component (ComponentPool_expand_step p w) = next_component w + 1"
  by (simp add: ComponentPool_expand_step_def new_component_def upd_pool_def Let_def)

lemma ComponentPool_expand_loop_pool:
  "pool_store (ComponentPool_expand_loop p n w) p =
     (pool_store w p)\<lparr>freeList := freeList (pool_store w p) @
                                     [next_component w ..< next_component w + n]\<rparr>"
proof (induction n arbitrary: w)
  case 0
  then show ?case by simp
next
  case (Suc n)
  show ?case
    by (simp add: Suc ComponentPool_expand_step_pool ComponentPool_expand_step_next push_def
        upt_conv_Cons)
qed

lemma growth_pos: "0 < growth n"
  by (simp add: growth_def)

lemma ComponentPool_acquire_grows:
  assumes "freeList (pool_store w p) = []"
  shows "count (pool_store (snd (ComponentPool_acquire p w)) p) =
           count (pool_store w p) + growth (count (pool_store w p))"
    and "length (freeList (pool_store (snd (ComponentPool_acquire p w)) p)) =
           growth (count (pool_store w p)) - 1"
    and "fst (ComponentPool_acquire p w) = next_component w + growth (count (pool_store w p)) - 1"
proof -
  let ?g = "growth (count (pool_store w p))"
  have P: "pool_store (ComponentPool_expand p ?g w) p =
             (pool_store w p)\<lparr>freeList := [next_component w ..< next_component w + ?g],
                              count := count (pool_store w p) + ?g\<rparr>"
    by (simp add: ComponentPool_expand_def upd_pool_def ComponentPool_expand_loop_pool assms)
  show "count (pool_store (snd (ComponentPool_acquire p w)) p) = count (pool_store w p) + ?g"
    by (simp add: ComponentPool_acquire_def Let_def upd_pool_def assms P)
  show "length (freeList (pool_store (snd (ComponentPool_acquire p w)) p)) = ?g - 1"
    by (simp add: ComponentPool_acquire_def Let_def upd_pool_def assms P)
  show "fst (ComponentPool_acquire p w) = next_component w + ?g - 1"
    using growth_pos[of "count (pool_store w p)"]
    by (simp add: ComponentPool_acquire_def Let_def upd_pool_def assms P)
qed

lemma Entity_new_entityPool: "entityPool (snd (Entity_new w)) = entityPool w"
  by (simp add: Entity_new_def draw_uuid_def Let_def)

lemma Entity_new_fst: "fst (Entity_new w) = next_entity w"
  by (simp add: Entity_new_def draw_uuid_def Let_def)

lemma Entity_new_next: "next_entity (snd (Entity_new w)) = next_entity w + 1"
  by (simp add: Entity_new_def draw_uuid_def Let_def)

lemma Entity_copy_entityPool: "entityPool (Entity_copy e s w) = entityPool w"
  unfolding Entity_copy_def
  by (rule fold_invariant) (simp add: case_prod_beta new_component_def upd_entity_def Let_def)

lemma Entity_copy_next: "next_entity (Entity_copy e s w) = next_entity w"
  unfolding Entity_copy_def
  by (rule fold_invariant) (simp add: case_prod_beta new_component_def upd_entity_def Let_def)

lemma EntityPool_expand_step_pool:
  "entityPool (EntityPool_expand_step w) =
     (entityPool w)\<lparr>freeList := push (freeList (entityPool w)) (next_entity w)\<rparr>"
  by (simp add: EntityPool_expand_step_def Entity_clone_def case_prod_beta Let_def upd_entity_def
      Entity_copy_entityPool Entity_new_entityPool Entity_new_fst)

lemma EntityPool_expand_step_next:
  "next_entity (EntityPool_expand_step w) = next_entity w + 1"
  by (simp add: EntityPool_expand_step_def Entity_clone_def case_prod_beta Let_def upd_entity_def
      Entity_copy_next Entity_new_next)

lemma EntityPool_expand_loop_pool:
  "entityPool (EntityPool_expand_loop n w) =
     (entityPool w)\<lparr>freeList := freeList (entityPool w) @ [next_entity w ..< next_entity w + n]\<rparr>"
proof (induction n arbitrary: w)
  case 0
  then show ?case by simp
next
  case (Suc n)
  show ?case
    by (simp add: Suc EntityPool_expand_step_pool EntityPool_expand_step_next push_def
        upt_conv_Cons)
qed

lemma EntityPool_acquire_grows:
  assumes "freeList (entityPool w) = []"
  shows "count (entityPool (snd (EntityPool_acquire w))) =
           count (entityPool w) + growth (count (entityPool w))"
    and "length (freeList (entityPool (snd (EntityPool_acquire w)))) =
           growth (count (entityPool w)) - 1"
    and "fst (EntityPool_acquire w) = next_entity w + growth (count (entityPool w)) - 1"
proof -
  let ?g = "growth (count (entityPool w))"
  have P: "entityPool (EntityPool_expand ?g w) =
             (entityPool w)\<lparr>freeList := [next_entity w ..< next_entity w + ?g],
                             count := count (entityPool w) + ?g\<rparr>"
    by (simp add: EntityPool_expand_def Let_def EntityPool_expand_loop_pool assms)
  show "count (entityPool (snd (EntityPool_acquire w))) = count (entityPool w) + ?g"
    by (simp add: EntityPool_acquire_def Let_def assms P)
  show "length (freeList (entityPool (snd (EntityPool_acquire w)))) = ?g - 1"
    by (simp add: EntityPool_acquire_def Let_def assms P)
  show "fst (EntityPool_acquire w) = next_entity w + ?g - 1"
    using growth_pos[of "count (entityPool w)"]
    by (simp add: EntityPool_acquire_def Let_def assms P)
qed


text \<open>
  C5 (amended). When \<^verbatim>\<open>acquire()\<close> finds the free list empty, a pool of components and
  the pool of entities expand by exactly \<^verbatim>\<open>Math.round(0.2 * count) + 1\<close> items, where
  \<open>count\<close> is the total size before: the total size grows by that number and, one item
  being handed out, the free list keeps one less.
\<close>

theorem acquire_expands_by_round:
  "(freeList (pool_store w p) = [] \<longrightarrow>
      count (pool_store (snd (ComponentPool_acquire p w)) p) =
        count (pool_store w p) + growth (count (pool_store w p)) \<and>
      length (freeList (pool_store (snd (ComponentPool_acquire p w)) p)) + 1 =
        growth (count (pool_store w p))) \<and>
   (freeList (entityPool w) = [] \<longrightarrow>
      count (entityPool (snd (EntityPool_acquire w))) =
        count (entityPool w) + growth (count (entityPool w)) \<and>
      length (freeList (entityPool (snd (EntityPool_acquire w)))) + 1 =
        growth (count (entityPool w))) \<and>
   growth n = nat (Math_round (of_nat n * 0.2)) + 1"
  using growth_pos[of "count (pool_store w p)"] growth_pos[of "count (entityPool w)"]
  by (auto simp: ComponentPool_acquire_grows EntityPool_acquire_grows growth_def)

theorem acquire_expands_by_round_witness:
  "freeList (pool_store pool11_world 0) = [] \<and>
   count (pool_store (snd (ComponentPool_acquire 0 pool11_world)) 0) = 14 \<and>
   length (freeList (pool_store (snd (ComponentPool_acquire 0 pool11_world)) 0)) + 1 = 3 \<and>
   freeList (entityPool pool11_world) = [] \<and>
   count (entityPool (snd (EntityPool_acquire pool11_world))) = 14"
  using acquire_expands_by_round[of pool11_world 0 11]
  by (simp add: pool11_world_def blank_world_def growth_eq)

text \<open>
  The claim as stated fails: a pool of total size 11 expands by 3 items, and
  \<open>\<lceil>0.2 \<cdot> 11\<rceil> + 1\<close> is 4.
\<close>

theorem acquire_ceiling_counterexample:
  "count (pool_store (snd (ComponentPool_acquire 0 pool11_world)) 0) -
     count (pool_store pool11_world 0) = 3 \<and>
   nat \<lceil>(0.2::rat) * of_nat (count (pool_store pool11_world 0))\<rceil> + 1 = 4"
proof -
  have "freeList (pool_store pool11_world 0) = []" "count (pool_store pool11_world 0) = 11"
    by (simp_all add: pool11_world_def blank_world_def)
  then show ?thesis
    using ceil_eq[of 11] by (simp add: ComponentPool_acquire_grows(1) growth_eq)
qed

section \<open>The query index\<close>

lemma Query_seed_queries: "World.queries (Query_seed q e w) = World.queries w"
  by (simp add: Query_seed_def upd_query_def upd_entity_def)

lemma Query_new_queries:
  "Query_new Cs w = Inr (q, w1) \<Longrightarrow> World.queries w1 = World.queries w"
  by (auto simp: Query_new_def Let_def Query_seed_queries fold_invariant split: if_splits)

lemma dict_ref_set: "dict_ref (dict_set m k v) k = Obj v"
  by (simp add: dict_ref_def dict_set_def update_conv')

lemma getQuery_indexed:
  "getQuery Cs w = Inr (q, w1) \<Longrightarrow> dict_ref (World.queries w1) (queryKey Cs) = Obj q"
  by (auto simp: getQuery_def Let_def dict_ref_set split: slot.splits sum.splits)

lemma getQuery_hit:
  "dict_ref (World.queries w) (queryKey Cs) = Obj q \<Longrightarrow> getQuery Cs w = Inr (q, w)"
  by (simp add: getQuery_def)

lemma getQuery_total:
  "positive Cs \<noteq> [] \<Longrightarrow> \<exists>q w1. getQuery Cs w = Inr (q, w1)"
  by (simp add: getQuery_def Query_new_def Let_def split: slot.splits)


text \<open>
  C1. When two component lists have the same canonical key, \<^verbatim>\<open>getQuery\<close> of the first
  (which succeeds as soon as the list has a positive component) followed by
  \<^verbatim>\<open>getQuery\<close> of the second returns the same query reference, and the second call
  leaves the world as it is.
\<close>

theorem getQuery_same_key_same_query:
  assumes "queryKey S = queryKey S'" and "positive S \<noteq> []"
  shows "\<exists>q w1. getQuery S w = Inr (q, w1) \<and> getQuery S' w1 = Inr (q, w1)"
proof -
  from assms(2) obtain q w1 where g: "getQuery S w = Inr (q, w1)"
    using getQuery_total by blast
  then have "dict_ref (World.queries w1) (queryKey S') = Obj q"
    using getQuery_indexed assms(1) by metis
  then have "getQuery S' w1 = Inr (q, w1)"
    by (rule getQuery_hit)
  with g show ?thesis by blast
qed


theorem getQuery_same_key_same_query_witness:
  "queryKey [Plain compA, Not compB] = queryKey [Not compB, Plain compA] \<and>
   positive [Plain compA, Not compB] \<noteq> [] \<and>
   (\<exists>q w1. getQuery [Plain compA, Not compB] world1 = Inr (q, w1) \<and>
            getQuery [Not compB, Plain compA] w1 = Inr (q, w1))"
proof -
  have k: "queryKey [Plain compA, Not compB] = queryKey [Not compB, Plain compA]"
    by (simp add: queryKey_def Not_def compA_def compB_def)
  have p: "positive [Plain compA, Not compB] \<noteq> []"
    by simp
  show ?thesis
    using getQuery_same_key_same_query[OF k p, of world1] k p by simp
qed

text \<open>
  C7. A component list without a positive component (only \<^verbatim>\<open>Not(...)\<close> entries, or
  none) makes the \<^verbatim>\<open>Query\<close> constructor throw, before it has changed anything; and
  \<^verbatim>\<open>getQuery\<close> on such a list either throws the same error or returns a query already
  indexed under the key, the world unchanged: no query is created or registered.
\<close>

theorem Query_new_rejects_empty:
  assumes "positive Cs = []"
  shows "Query_new Cs w = Inl (Error ''Can't create a query without components'') \<and>
         (case getQuery Cs w of
            Inl err \<Rightarrow> err = Error ''Can't create a query without components''
          | Inr (q, w1) \<Rightarrow> w1 = w \<and> dict_ref (World.queries w) (queryKey Cs) = Obj q)"
  using assms by (simp add: Query_new_def getQuery_def Let_def split: slot.splits)


theorem Query_new_rejects_empty_witness:
  "positive [Not compA] = [] \<and>
   Query_new [Not compA] world1 = Inl (Error ''Can't create a query without components'') \<and>
   getQuery [Not compA] world0 = Inl (Error ''Can't create a query without components'')"
proof -
  have p: "positive [Not compA] = []"
    by (simp add: Not_def)
  have q: "dict_ref (World.queries world0) (queryKey [Not compA]) = Undefined"
    by (simp add: world0_def model_defs)
  show ?thesis
    using Query_new_rejects_empty[OF p, of world1] Query_new_rejects_empty[OF p, of world0] p q
    by (auto simp: getQuery_def Let_def split: sum.splits)
qed

section \<open>addComponent: the value returned\<close>

text \<open>
  C6 (amended). \<^verbatim>\<open>addComponent(C, props)\<close> returns the entity itself when \<open>C\<close> is
  not attached yet; when \<open>C\<close> is already attached it changes nothing and returns
  \<^verbatim>\<open>undefined\<close>.
\<close>

theorem addComponent_returns:
  "(if indexOf (Entity.componentTypes (entity_store w e)) C \<noteq> -1
    then addComponent e C props w = (Undefined, w)
    else fst (addComponent e C props w) = Obj e)"
  by (simp add: addComponent_def Let_def split: prod.splits)


theorem addComponent_returns_witness:
  "addComponent 1 compA Undefined world1 = (Undefined, world1) \<and>
   fst (addComponent 1 compB Undefined world1) = Obj 1"
proof -
  have t: "Entity.componentTypes (entity_store world1 1) = [compA]"
    by (simp add: world1_def world0_def model_defs compA_def compB_def growth_eq)
  show ?thesis
    using addComponent_returns[of world1 1 compA Undefined]
      addComponent_returns[of world1 1 compB Undefined] t
    by (simp add: compA_def compB_def)
qed

text \<open>
  The claim as stated fails on an entity that already has the component: the call returns
  \<^verbatim>\<open>undefined\<close>, not the entity.
\<close>

theorem addComponent_duplicate_counterexample:
  "Entity.componentTypes (entity_store world1 1) = [compA] \<and>
   fst (addComponent 1 compA Undefined world1) = Undefined \<and>
   fst (addComponent 1 compA Undefined world1) \<noteq> Obj 1"
proof -
  have t: "Entity.componentTypes (entity_store world1 1) = [compA]"
    by (simp add: world1_def world0_def model_defs compA_def compB_def growth_eq)
  then show ?thesis
    by (simp add: addComponent_def)
qed

section \<open>What the maintenance of the queries leaves alone\<close>

definition beside_queries :: "World \<Rightarrow> World" where
  "beside_queries w =
     w\<lparr>entity_store := (\<lambda>e. (entity_store w e)\<lparr>Entity.queries := []\<rparr>),
       query_store := (\<lambda>_. \<lparr>Components = [], NotComponents = [], entities = [], fired = 0,
                             reactive = False, key = []\<rparr>),
       componentCounts := Map.empty\<rparr>"

lemma beside_Query_addEntity: "beside_queries (Query_addEntity q e w) = beside_queries w"
  by (simp add: beside_queries_def Query_addEntity_def dispatchEvent_def upd_query_def
      upd_entity_def fun_eq_iff)

lemma beside_Query_removeEntity: "beside_queries (Query_removeEntity q e w) = beside_queries w"
  by (simp add: beside_queries_def Query_removeEntity_def dispatchEvent_def upd_query_def
      upd_entity_def fun_eq_iff Let_def)

lemma beside_onRemoveComponent: "beside_queries (onRemoveComponent e C w) = beside_queries w"
proof -
  have "beside_queries (fold (\<lambda>(queryName, query). onRemoveComponent_query e C query) qs w') =
        beside_queries w'" for qs w'
    by (rule fold_invariant)
       (simp add: case_prod_beta onRemoveComponent_query_def Let_def beside_Query_addEntity
         beside_Query_removeEntity)
  then have "beside_queries (onRemoveComponent e C w) =
             beside_queries (w\<lparr>componentCounts := count_add (componentCounts w) (name C) (- 1)\<rparr>)"
    by (simp add: onRemoveComponent_def Let_def)
  also have "\<dots> = beside_queries w"
    by (simp add: beside_queries_def)
  finally show ?thesis .
qed

lemma beside_onComponentAdded: "beside_queries (onComponentAdded e C w) = beside_queries w"
proof -
  have "beside_queries (fold (\<lambda>(queryName, query). onComponentAdded_query e C query) qs w') =
        beside_queries w'" for qs w'
    by (rule fold_invariant)
       (simp add: case_prod_beta onComponentAdded_query_def Let_def beside_Query_addEntity
         beside_Query_removeEntity)
  then have "beside_queries (onComponentAdded e C w) =
             beside_queries (w\<lparr>componentCounts := count_add (componentCounts w) (name C) 1\<rparr>)"
    by (simp add: onComponentAdded_def Let_def)
  also have "\<dots> = beside_queries w"
    by (simp add: beside_queries_def)
  finally show ?thesis .
qed

lemma beside_onDisposeEntity: "beside_queries (onDisposeEntity e w) = beside_queries w"
  unfolding onDisposeEntity_def
  by (rule fold_invariant) (simp add: case_prod_beta beside_Query_removeEntity)

lemma beside_dispose_queries: "beside_queries (dispose_queries e i w) = beside_queries w"
proof (induction e i w rule: dispose_queries.induct)
  case (1 entity i w)
  show ?case
  proof (cases "i < length (Entity.queries (entity_store w entity))")
    case True
    then have "beside_queries (dispose_queries entity (i + 1)
                 (Query_removeEntity (Entity.queries (entity_store w entity) ! i) entity w)) =
               beside_queries (Query_removeEntity (Entity.queries (entity_store w entity) ! i) entity w)"
      by (rule 1)
    with True show ?thesis
      by (subst dispose_queries.simps) (simp add: beside_Query_removeEntity)
  next
    case False
    then show ?thesis
      by (subst dispose_queries.simps) simp
  qed
qed

text \<open>What \<open>beside_queries\<close> keeps of an entity and of the world.\<close>

lemma beside_entity:
  "beside_queries w' = beside_queries w \<Longrightarrow>
   (entity_store w' e)\<lparr>Entity.queries := []\<rparr> = (entity_store w e)\<lparr>Entity.queries := []\<rparr>"
  by (drule arg_cong[where f = "\<lambda>w. entity_store w e"]) (simp add: beside_queries_def)

lemma beside_fields:
  assumes "beside_queries w' = beside_queries w"
  shows "alive (entity_store w' e) = alive (entity_store w e)"
    and "components (entity_store w' e) = components (entity_store w e)"
    and "componentsToRemove (entity_store w' e) = componentsToRemove (entity_store w e)"
    and "Entity.componentTypes (entity_store w' e) = Entity.componentTypes (entity_store w e)"
    and "componentTypesToRemove (entity_store w' e) = componentTypesToRemove (entity_store w e)"
    and "numSystemStateComponents (entity_store w' e) = numSystemStateComponents (entity_store w e)"
    and "Entity.pool (entity_store w' e) = Entity.pool (entity_store w e)"
    and "uuid (entity_store w' e) = uuid (entity_store w e)"
proof -
  have eq: "(entity_store w' e)\<lparr>Entity.queries := []\<rparr> = (entity_store w e)\<lparr>Entity.queries := []\<rparr>"
    using assms by (rule beside_entity)
  show "alive (entity_store w' e) = alive (entity_store w e)"
    using arg_cong[OF eq, of alive] by simp
  show "components (entity_store w' e) = components (entity_store w e)"
    using arg_cong[OF eq, of components] by simp
  show "componentsToRemove (entity_store w' e) = componentsToRemove (entity_store w e)"
    using arg_cong[OF eq, of componentsToRemove] by simp
  show "Entity.componentTypes (entity_store w' e) = Entity.componentTypes (entity_store w e)"
    using arg_cong[OF eq, of Entity.componentTypes] by simp
  show "componentTypesToRemove (entity_store w' e) = componentTypesToRemove (entity_store w e)"
    using arg_cong[OF eq, of componentTypesToRemove] by simp
  show "numSystemStateComponents (entity_store w' e) = numSystemStateComponents (entity_store w e)"
    using arg_cong[OF eq, of numSystemStateComponents] by simp
  show "Entity.pool (entity_store w' e) = Entity.pool (entity_store w e)"
    using arg_cong[OF eq, of Entity.pool] by simp
  show "uuid (entity_store w' e) = uuid (entity_store w e)"
    using arg_cong[OF eq, of uuid] by simp
qed

lemma beside_world:
  assumes "beside_queries w' = beside_queries w"
  shows "entityPool w' = entityPool w"
    and "World.entities w' = World.entities w"
    and "entitiesByUUID w' = entitiesByUUID w"
    and "entitiesToRemove w' = entitiesToRemove w"
    and "entitiesWithComponentsToRemove w' = entitiesWithComponentsToRemove w"
    and "World.queries w' = World.queries w"
    and "component_store w' = component_store w"
    and "pool_store w' = pool_store w"
    and "random w' = random w"
    and "random_next w' = random_next w"
    and "next_entity w' = next_entity w"
    and "next_component w' = next_component w"
proof -
  show "entityPool w' = entityPool w"
    using arg_cong[OF assms, of entityPool] by (simp add: beside_queries_def)
  show "World.entities w' = World.entities w"
    using arg_cong[OF assms, of World.entities] by (simp add: beside_queries_def)
  show "entitiesByUUID w' = entitiesByUUID w"
    using arg_cong[OF assms, of entitiesByUUID] by (simp add: beside_queries_def)
  show "entitiesToRemove w' = entitiesToRemove w"
    using arg_cong[OF assms, of entitiesToRemove] by (simp add: beside_queries_def)
  show "entitiesWithComponentsToRemove w' = entitiesWithComponentsToRemove w"
    using arg_cong[OF assms, of entitiesWithComponentsToRemove] by (simp add: beside_queries_def)
  show "World.queries w' = World.queries w"
    using arg_cong[OF assms, of World.queries] by (simp add: beside_queries_def)
  show "component_store w' = component_store w"
    using arg_cong[OF assms, of component_store] by (simp add: beside_queries_def)
  show "pool_store w' = pool_store w"
    using arg_cong[OF assms, of pool_store] by (simp add: beside_queries_def)
  show "random w' = random w"
    using arg_cong[OF assms, of random] by (simp add: beside_queries_def)
  show "random_next w' = random_next w"
    using arg_cong[OF assms, of random_next] by (simp add: beside_queries_def)
  show "next_entity w' = next_entity w"
    using arg_cong[OF assms, of next_entity] by (simp add: beside_queries_def)
  show "next_component w' = next_component w"
    using arg_cong[OF assms, of next_component] by (simp add: beside_queries_def)
qed


section \<open>removeComponent\<close>

lemma splice1_minus1: "splice1 (-1) xs = butlast xs"
  by (cases "xs = []") (simp_all add: splice1_def Let_def butlast_conv_take nat_diff_distrib')

lemma Component_dispose_entity_store: "entity_store (Component_dispose c w) = entity_store w"
  by (simp add: Component_dispose_def ComponentPool_release_def upd_pool_def upd_component_def
      Let_def split: option.splits)

lemma queueComponentRemoval_entity_store:
  "entity_store (queueComponentRemoval e w) = entity_store w"
  by (simp add: queueComponentRemoval_def Let_def)

lemma Entity_dispose_deferred_entity:
  "entity_store (Entity_dispose e False w) e' =
     (entity_store (if alive (entity_store w e) then onDisposeEntity e w else w) e')
       \<lparr>alive := (if e' = e then False
                   else alive (entity_store (if alive (entity_store w e) then onDisposeEntity e w else w) e'))\<rparr>"
  by (simp add: Entity_dispose_def Let_def queueEntityDisposal_def upd_entity_def)

lemma Entity_dispose_deferred_componentTypes:
  "Entity.componentTypes (entity_store (Entity_dispose e False w) e') =
     Entity.componentTypes (entity_store w e')"
  by (simp add: Entity_dispose_deferred_entity beside_fields[OF beside_onDisposeEntity])

lemma removeComponent_returns_true: "fst (removeComponent e C immediately w) = True"
  by (simp add: removeComponent_def Let_def)

lemma removeComponent_absent_componentTypes:
  assumes "indexOf (Entity.componentTypes (entity_store w e)) C = -1"
    and "\<not> truthy (dict_get (componentsToRemove (entity_store w e)) (name C))"
  shows "Entity.componentTypes (entity_store (snd (removeComponent e C immediately w)) e) =
           butlast (Entity.componentTypes (entity_store w e))"
  using assms
  by (simp add: removeComponent_def Let_def upd_entity_def splice1_minus1
      beside_fields[OF beside_onRemoveComponent] Component_dispose_entity_store
      queueComponentRemoval_entity_store Entity_dispose_deferred_componentTypes
      split: slot.splits)

lemma indexOf_ge: "- 1 \<le> indexOf xs x"
  by (induction xs) (simp_all add: Let_def)

lemma indexOf_notin: "indexOf xs x = -1 \<longleftrightarrow> x \<notin> set xs"
proof (induction xs)
  case Nil
  then show ?case by simp
next
  case (Cons y ys)
  then show ?case
    using indexOf_ge[of ys x] by (auto simp: Let_def)
qed

lemma dict_get_set: "dict_get (dict_set m k v) k = v"
  by (simp add: dict_get_def dict_set_def update_conv')

lemma dict_ref_delete: "dict_ref (dict_delete m k) k = Undefined"
  by (simp add: dict_ref_def dict_delete_def delete_conv')

lemma removeComponent_deferred_pending:
  assumes "alive (entity_store w e)"
    and "\<not> truthy (dict_get (componentsToRemove (entity_store w e)) (name C))"
  shows "getRemovedComponent (entity_store (snd (removeComponent e C False w)) e) C = Undefined"
    and "hasRemovedComponent (entity_store (snd (removeComponent e C False w)) e) C"
    and "dict_ref (components (entity_store (snd (removeComponent e C False w)) e)) (name C) =
           Undefined"
  using assms
  by (simp_all add: removeComponent_def Let_def upd_entity_def getRemovedComponent_def
      hasRemovedComponent_def indexOf_notin push_def
      beside_fields[OF beside_onRemoveComponent] queueComponentRemoval_entity_store
      dict_get_set dict_ref_delete)

text \<open>The entity of \<open>world1\<close>.\<close>

lemma world1_entity:
  "entity_store world1 (Suc 0) =
     \<lparr> uuid = generateUUID 0 0 0 0, componentTypes = [compA], components = [(''A'', 2)],
       componentsToRemove = [], queries = [], componentTypesToRemove = [], alive = True,
       numSystemStateComponents = 0, pool = True \<rparr>"
  by (simp add: world1_def world0_def model_defs compA_def compB_def growth_eq)

text \<open>
  C2. What \<^verbatim>\<open>build/ecsy.module.js\<close> does instead: on an alive entity with no pending
  entry for \<open>C\<close>, a deferred \<^verbatim>\<open>removeComponent(C)\<close> lists \<open>C\<close> as pending but stores
  \<^verbatim>\<open>undefined\<close> in the pending map, because the instance is read from the live map
  after it was deleted there: \<^verbatim>\<open>getRemovedComponent(C)\<close> returns \<^verbatim>\<open>undefined\<close>, not
  the instance that was attached.
\<close>

theorem removeComponent_deferred_stores_undefined:
  assumes "alive (entity_store w e)"
    and "\<not> truthy (dict_get (componentsToRemove (entity_store w e)) (name C))"
  shows "getRemovedComponent (entity_store (snd (removeComponent e C False w)) e) C = Undefined \<and>
         hasRemovedComponent (entity_store (snd (removeComponent e C False w)) e) C \<and>
         getComponent (entity_store (snd (removeComponent e C False w)) e) C True = Undefined"
  using removeComponent_deferred_pending[OF assms]
  by (simp add: getComponent_def getRemovedComponent_def)

theorem removeComponent_deferred_stores_undefined_witness:
  "alive (entity_store world1 1) \<and>
   \<not> truthy (dict_get (componentsToRemove (entity_store world1 1)) (name compA)) \<and>
   getComponent (entity_store world1 1) compA False = Obj 2 \<and>
   getRemovedComponent (entity_store (snd (removeComponent 1 compA False world1)) 1) compA =
     Undefined"
proof -
  have a: "alive (entity_store world1 1)"
    by (simp add: world1_entity)
  have b: "\<not> truthy (dict_get (componentsToRemove (entity_store world1 1)) (name compA))"
    by (simp add: world1_entity dict_get_def)
  have c: "getComponent (entity_store world1 1) compA False = Obj 2"
    by (simp add: world1_entity getComponent_def dict_ref_def compA_def)
  show ?thesis
    using removeComponent_deferred_stores_undefined[OF a b] a b c by simp
qed

text \<open>
  C3. What \<^verbatim>\<open>build/ecsy.module.js\<close> does instead: for a class that is neither attached
  to the entity nor pending, \<^verbatim>\<open>removeComponent\<close> returns \<^verbatim>\<open>true\<close> and, since
  \<^verbatim>\<open>indexOf\<close> gives \<open>-1\<close> and \<^verbatim>\<open>splice(-1, 1)\<close> removes the last element, drops
  the last class of the entity's type list.
\<close>

theorem removeComponent_absent_not_noop:
  assumes "indexOf (Entity.componentTypes (entity_store w e)) C = -1"
    and "\<not> truthy (dict_get (componentsToRemove (entity_store w e)) (name C))"
  shows "fst (removeComponent e C immediately w) = True \<and>
         Entity.componentTypes (entity_store (snd (removeComponent e C immediately w)) e) =
           butlast (Entity.componentTypes (entity_store w e))"
  using removeComponent_absent_componentTypes[OF assms] removeComponent_returns_true
  by simp

theorem removeComponent_absent_not_noop_witness:
  "indexOf (Entity.componentTypes (entity_store world1 1)) compB = -1 \<and>
   \<not> truthy (dict_get (componentsToRemove (entity_store world1 1)) (name compB)) \<and>
   Entity.componentTypes (entity_store world1 1) = [compA] \<and>
   fst (removeComponent 1 compB True world1) = True \<and>
   Entity.componentTypes (entity_store (snd (removeComponent 1 compB True world1)) 1) = []"
proof -
  have a: "indexOf (Entity.componentTypes (entity_store world1 1)) compB = -1"
    by (simp add: world1_entity compA_def compB_def)
  have b: "\<not> truthy (dict_get (componentsToRemove (entity_store world1 1)) (name compB))"
    by (simp add: world1_entity dict_get_def)
  have c: "Entity.componentTypes (entity_store world1 1) = [compA]"
    by (simp add: world1_entity)
  show ?thesis
    using removeComponent_absent_not_noop[OF a b, of True] a b c by simp
qed

section \<open>dispose\<close>

lemma Component_dispose_entityPool: "entityPool (Component_dispose c w) = entityPool w"
  by (simp add: Component_dispose_def ComponentPool_release_def upd_pool_def upd_component_def
      Let_def split: option.splits)

lemma dispose_components_entity_store:
  "entity_store (fold (\<lambda>(componentName, component). Component_dispose component) cs w) =
     entity_store w"
  by (rule fold_invariant) (simp add: case_prod_beta Component_dispose_entity_store)

lemma dispose_components_entityPool:
  "entityPool (fold (\<lambda>(componentName, component). Component_dispose component) cs w) =
     entityPool w"
  by (rule fold_invariant) (simp add: case_prod_beta Component_dispose_entityPool)

lemma onEntityDisposed_entity_store: "entity_store (onEntityDisposed e w) = entity_store w"
  by (simp add: onEntityDisposed_def Let_def split: option.splits)

lemma onEntityDisposed_entityPool: "entityPool (onEntityDisposed e w) = entityPool w"
  by (simp add: onEntityDisposed_def Let_def split: option.splits)

lemma EntityPool_release_bare:
  "components (entity_store w (baseObject (entityPool w))) = [] \<Longrightarrow>
   EntityPool_release e w =
     w\<lparr>entityPool := (entityPool w)\<lparr>freeList := freeList (entityPool w) @ [e]\<rparr>\<rparr>"
  by (simp add: EntityPool_release_def Entity_copy_def Let_def push_def)

lemma hasComponent_empty:
  "Entity.componentTypes E = [] \<Longrightarrow> componentTypesToRemove E = [] \<Longrightarrow>
   hasComponent E C includeRemoved = False"
  by (simp add: hasComponent_def hasRemovedComponent_def)

lemma Entity_dispose_immediately:
  assumes base: "components (entity_store w (baseObject (entityPool w))) = []"
  shows "entity_store (Entity_dispose e True w) e =
           \<lparr> uuid = fst (draw_uuid w), componentTypes = [], components = [],
             componentsToRemove = [], queries = [], componentTypesToRemove = [], alive = True,
             numSystemStateComponents = numSystemStateComponents (entity_store w e),
             pool = Entity.pool (entity_store w e) \<rparr>"
    and "entityPool (Entity_dispose e True w) =
           (if Entity.pool (entity_store w e)
            then (entityPool w)\<lparr>freeList := freeList (entityPool w) @ [e]\<rparr>
            else entityPool w)"
proof -
  define w1 where "w1 = (if alive (entity_store w e) then onDisposeEntity e w else w)"
  define u where "u = fst (draw_uuid w1)"
  define w3 where
    "w3 = upd_entity e (\<lambda>E. E\<lparr>uuid := u, alive := True\<rparr>) (snd (draw_uuid w1))"
  define w4 where "w4 = dispose_queries e 0 w3"
  define w5 where
    "w5 = fold (\<lambda>(componentName, component). Component_dispose component)
            (components (entity_store w4 e)) w4"
  define w6 where
    "w6 = upd_entity e
            (\<lambda>E. E\<lparr>components := [], componentsToRemove := [], Entity.queries := [],
                   Entity.componentTypes := [], componentTypesToRemove := []\<rparr>) w5"
  define w7 where
    "w7 = (if Entity.pool (entity_store w6 e) then EntityPool_release e w6 else w6)"
  have unfold: "Entity_dispose e True w = onEntityDisposed e w7"
    by (simp add: Entity_dispose_def Let_def case_prod_beta w1_def u_def w3_def w4_def w5_def
        w6_def w7_def)
  have b1: "beside_queries w1 = beside_queries w"
    by (simp add: w1_def beside_onDisposeEntity)
  have b4: "beside_queries w4 = beside_queries w3"
    by (simp add: w4_def beside_dispose_queries)
  have u: "u = fst (draw_uuid w)"
    by (simp add: u_def draw_uuid_def Let_def beside_world[OF b1])
  have e3: "entity_store w3 x = (if x = e then (entity_store w1 e)\<lparr>uuid := u, alive := True\<rparr>
                                 else entity_store w1 x)" for x
    by (simp add: w3_def upd_entity_def draw_uuid_def Let_def)
  have p3: "entityPool w3 = entityPool w"
    by (simp add: w3_def upd_entity_def draw_uuid_def Let_def beside_world[OF b1])
  have s5: "entity_store w5 = entity_store w4"
    by (simp add: w5_def dispose_components_entity_store)
  have p5: "entityPool w5 = entityPool w"
    by (simp add: w5_def dispose_components_entityPool beside_world[OF b4] p3)
  have e6: "entity_store w6 e =
              \<lparr> uuid = u, componentTypes = [], components = [], componentsToRemove = [],
                queries = [], componentTypesToRemove = [], alive = True,
                numSystemStateComponents = numSystemStateComponents (entity_store w e),
                pool = Entity.pool (entity_store w e) \<rparr>"
    by (simp add: w6_def upd_entity_def s5 beside_fields[OF b4] e3 beside_fields[OF b1])
  have p6: "entityPool w6 = entityPool w"
    by (simp add: w6_def upd_entity_def p5)
  have c6: "components (entity_store w6 (baseObject (entityPool w6))) = []"
  proof (cases "baseObject (entityPool w) = e")
    case True
    then show ?thesis by (simp add: p6 e6)
  next
    case False
    then have "components (entity_store w6 (baseObject (entityPool w))) =
               components (entity_store w (baseObject (entityPool w)))"
      by (simp add: w6_def upd_entity_def s5 beside_fields[OF b4] e3 beside_fields[OF b1])
    then show ?thesis by (simp add: p6 base)
  qed
  have w7: "w7 = (if Entity.pool (entity_store w e)
                  then w6\<lparr>entityPool := (entityPool w6)\<lparr>freeList := freeList (entityPool w6) @ [e]\<rparr>\<rparr>
                  else w6)"
    by (simp add: w7_def EntityPool_release_bare[OF c6] e6)
  show "entity_store (Entity_dispose e True w) e =
           \<lparr> uuid = fst (draw_uuid w), componentTypes = [], components = [],
             componentsToRemove = [], queries = [], componentTypesToRemove = [], alive = True,
             numSystemStateComponents = numSystemStateComponents (entity_store w e),
             pool = Entity.pool (entity_store w e) \<rparr>"
    by (simp add: unfold onEntityDisposed_entity_store w7 e6 u)
  show "entityPool (Entity_dispose e True w) =
           (if Entity.pool (entity_store w e)
            then (entityPool w)\<lparr>freeList := freeList (entityPool w) @ [e]\<rparr>
            else entityPool w)"
    by (simp add: unfold onEntityDisposed_entityPool w7 p6)
qed

lemma world1_pool:
  "entityPool world1 = \<lparr>freeList = [], count = 1, baseObject = 0\<rparr> \<and>
   components (entity_store world1 0) = []"
  by (simp add: world1_def world0_def model_defs compA_def compB_def growth_eq)

lemma splice1_Cons_0: "splice1 0 (x # xs) = xs"
  by (simp add: splice1_def)

lemma splice1_Cons_Suc: "0 \<le> r \<Longrightarrow> splice1 (r + 1) (y # ys) = y # splice1 r ys"
  by (simp add: splice1_def Let_def nat_add_distrib min_def)

lemma splice1_indexOf_remove1: "x \<in> set xs \<Longrightarrow> splice1 (indexOf xs x) xs = remove1 x xs"
proof (induction xs)
  case Nil
  then show ?case by simp
next
  case (Cons y ys)
  show ?case
  proof (cases "y = x")
    case True
    then show ?thesis by (simp add: splice1_Cons_0)
  next
    case False
    with Cons.prems have in_ys: "x \<in> set ys" by simp
    then have "indexOf ys x \<noteq> -1" by (simp add: indexOf_notin)
    with indexOf_ge[of ys x] have ge: "0 \<le> indexOf ys x" by linarith
    then have "indexOf (y # ys) x = indexOf ys x + 1"
      using False by (simp add: Let_def)
    then show ?thesis
      using False Cons.IH[OF in_ys] by (simp add: splice1_Cons_Suc[OF ge])
  qed
qed

lemma set_drop_splice1: "set (drop (Suc i) (splice1 j xs)) \<subseteq> set (drop i xs)"
proof -
  define s where "s = nat (if j < 0 then max (int (length xs) + j) 0 else min j (int (length xs)))"
  have sp: "splice1 j xs = take s xs @ drop (s + 1) xs"
    by (simp add: splice1_def Let_def s_def)
  have "set (drop (Suc i) (take s xs)) \<subseteq> set (drop (Suc i) xs)"
    using set_take_subset[of "s - Suc i" "drop (Suc i) xs"] by (simp add: drop_take)
  also have "\<dots> \<subseteq> set (drop i xs)"
    by (rule set_drop_subset_set_drop) simp
  finally have A: "set (drop (Suc i) (take s xs)) \<subseteq> set (drop i xs)" .
  have "i \<le> Suc i - length (take s xs) + (s + 1)"
    by simp
  then have "set (drop (Suc i - length (take s xs) + (s + 1)) xs) \<subseteq> set (drop i xs)"
    by (rule set_drop_subset_set_drop)
  then have B: "set (drop (Suc i - length (take s xs)) (drop (s + 1) xs)) \<subseteq> set (drop i xs)"
    by (simp only: drop_drop)
  have "drop (Suc i) (splice1 j xs) =
          drop (Suc i) (take s xs) @ drop (Suc i - length (take s xs)) (drop (s + 1) xs)"
    by (simp only: sp drop_append)
  with A B show ?thesis
    by (simp only: set_append Un_subset_iff)
qed

lemma Query_removeEntity_other_query:
  "q' \<noteq> q \<Longrightarrow> query_store (Query_removeEntity q e w) q' = query_store w q'"
  by (simp add: Query_removeEntity_def Let_def dispatchEvent_def upd_query_def upd_entity_def)

lemma Query_removeEntity_backrefs:
  "Entity.queries (entity_store (Query_removeEntity q e w) e) =
     (if indexOf (Query.entities (query_store w q)) e \<noteq> -1
      then splice1 (indexOf (Entity.queries (entity_store w e)) q) (Entity.queries (entity_store w e))
      else Entity.queries (entity_store w e))"
  by (simp add: Query_removeEntity_def Let_def dispatchEvent_def upd_query_def upd_entity_def)

lemma Query_removeEntity_entities:
  "e \<in> set (Query.entities (query_store w q)) \<Longrightarrow>
   Query.entities (query_store (Query_removeEntity q e w) q) =
     remove1 e (Query.entities (query_store w q))"
  by (simp add: Query_removeEntity_def Let_def dispatchEvent_def upd_query_def upd_entity_def
      indexOf_notin splice1_indexOf_remove1)

lemma dispose_queries_untouched:
  "q \<notin> set (drop i (Entity.queries (entity_store w e))) \<Longrightarrow>
   query_store (dispose_queries e i w) q = query_store w q"
proof (induction e i w rule: dispose_queries.induct)
  case (1 entity i w)
  let ?L = "Entity.queries (entity_store w entity)"
  show ?case
  proof (cases "i < length ?L")
    case True
    let ?w1 = "Query_removeEntity (?L ! i) entity w"
    have mem: "?L ! i \<in> set (drop i ?L)"
      using True by (metis Cons_nth_drop_Suc list.set_intros(1))
    with 1(2) have ne: "q \<noteq> ?L ! i" by auto
    have sub: "set (drop (i + 1) (Entity.queries (entity_store ?w1 entity))) \<subseteq> set (drop i ?L)"
    proof (cases "indexOf (Query.entities (query_store w (?L ! i))) entity \<noteq> -1")
      case True
      then show ?thesis
        using set_drop_splice1[of i "indexOf ?L (?L ! i)" ?L]
        by (simp add: Query_removeEntity_backrefs)
    next
      case False
      then show ?thesis
        by (simp add: Query_removeEntity_backrefs) (metis Suc_eq_plus1 add.commute drop_drop in_set_dropD subsetI)
    qed
    with 1(2) have "q \<notin> set (drop (i + 1) (Entity.queries (entity_store ?w1 entity)))"
      by auto
    then have "query_store (dispose_queries entity (i + 1) ?w1) q = query_store ?w1 q"
      by (rule 1(1)[OF True])
    with True ne show ?thesis
      by (subst dispose_queries.simps) (simp add: Query_removeEntity_other_query)
  next
    case False
    then show ?thesis
      by (subst dispose_queries.simps) simp
  qed
qed

lemma Component_dispose_query_store: "query_store (Component_dispose c w) = query_store w"
  by (simp add: Component_dispose_def ComponentPool_release_def upd_pool_def upd_component_def
      Let_def split: option.splits)

lemma dispose_components_query_store:
  "query_store (fold (\<lambda>(componentName, component). Component_dispose component) cs w) =
     query_store w"
  by (rule fold_invariant) (simp add: case_prod_beta Component_dispose_query_store)

lemma Component_dispose_pool_field:
  "Component.pool (component_store (Component_dispose c w) c') =
     Component.pool (component_store w c')"
  by (simp add: Component_dispose_def ComponentPool_release_def upd_pool_def upd_component_def
      Component_copy_def Let_def split: option.splits)

lemma Component_dispose_keeps:
  "x \<in> set (freeList (pool_store w p)) \<Longrightarrow>
   x \<in> set (freeList (pool_store (Component_dispose c w) p))"
  by (simp add: Component_dispose_def ComponentPool_release_def upd_pool_def upd_component_def
      push_def Let_def split: option.splits)

lemma Component_dispose_released:
  "Component.pool (component_store w c) = Some p \<Longrightarrow>
   c \<in> set (freeList (pool_store (Component_dispose c w) p))"
  by (simp add: Component_dispose_def ComponentPool_release_def upd_pool_def upd_component_def
      push_def Let_def)

lemma dispose_components_keeps:
  "x \<in> set (freeList (pool_store w p)) \<Longrightarrow>
   x \<in> set (freeList (pool_store
                (fold (\<lambda>(componentName, component). Component_dispose component) cs w) p))"
  by (induction cs arbitrary: w) (simp_all add: case_prod_beta Component_dispose_keeps)

lemma dispose_components_released:
  "(n, c) \<in> set cs \<Longrightarrow> Component.pool (component_store w c) = Some p \<Longrightarrow>
   c \<in> set (freeList (pool_store
                (fold (\<lambda>(componentName, component). Component_dispose component) cs w) p))"
proof (induction cs arbitrary: w)
  case Nil
  then show ?case by simp
next
  case (Cons x cs)
  show ?case
  proof (cases "x = (n, c)")
    case True
    then show ?thesis
      using Cons.prems(2)
      by (simp add: dispose_components_keeps Component_dispose_released)
  next
    case False
    with Cons.prems(1) have m: "(n, c) \<in> set cs" by simp
    have "Component.pool (component_store (Component_dispose (snd x) w) c) = Some p"
      using Cons.prems(2) by (simp add: Component_dispose_pool_field)
    from Cons.IH[OF m this] show ?thesis
      by (simp add: case_prod_beta)
  qed
qed

lemma onEntityDisposed_stores:
  "query_store (onEntityDisposed e w) = query_store w"
  "pool_store (onEntityDisposed e w) = pool_store w"
  by (simp_all add: onEntityDisposed_def Let_def split: option.splits)

lemma Entity_dispose_dead:
  assumes dead: "\<not> alive (entity_store w e)"
    and qs: "Entity.queries (entity_store w e) = q1 # q2 # qs"
    and dist: "distinct (q1 # q2 # qs)"
    and in1: "e \<in> set (Query.entities (query_store w q1))"
    and base: "components (entity_store w (baseObject (entityPool w))) = []"
  shows "Query.entities (query_store (Entity_dispose e True w) q1) =
           remove1 e (Query.entities (query_store w q1))"
    and "query_store (Entity_dispose e True w) q2 = query_store w q2"
    and "(n, c) \<in> set (components (entity_store w e)) \<Longrightarrow>
         Component.pool (component_store w c) = Some p \<Longrightarrow>
         c \<in> set (freeList (pool_store (Entity_dispose e True w) p))"
proof -
  define u where "u = fst (draw_uuid w)"
  define w3 where
    "w3 = upd_entity e (\<lambda>E. E\<lparr>uuid := u, alive := True\<rparr>) (snd (draw_uuid w))"
  define w3' where "w3' = Query_removeEntity q1 e w3"
  define w4 where "w4 = dispose_queries e 0 w3"
  define w5 where
    "w5 = fold (\<lambda>(componentName, component). Component_dispose component)
            (components (entity_store w4 e)) w4"
  define w6 where
    "w6 = upd_entity e
            (\<lambda>E. E\<lparr>components := [], componentsToRemove := [], Entity.queries := [],
                   Entity.componentTypes := [], componentTypesToRemove := []\<rparr>) w5"
  define w7 where
    "w7 = (if Entity.pool (entity_store w6 e) then EntityPool_release e w6 else w6)"
  have unfold: "Entity_dispose e True w = onEntityDisposed e w7"
    using dead
    by (simp add: Entity_dispose_def Let_def case_prod_beta u_def w3_def w4_def w5_def
        w6_def w7_def)
  have q3: "query_store w3 = query_store w" "component_store w3 = component_store w"
    "pool_store w3 = pool_store w" "entityPool w3 = entityPool w"
    by (simp_all add: w3_def upd_entity_def draw_uuid_def Let_def)
  have e3: "entity_store w3 x = (if x = e then (entity_store w e)\<lparr>uuid := u, alive := True\<rparr>
                                 else entity_store w x)" for x
    by (simp add: w3_def upd_entity_def draw_uuid_def Let_def)
  have l3: "Entity.queries (entity_store w3 e) = q1 # q2 # qs"
    by (simp add: e3 qs)
  have in3: "indexOf (Query.entities (query_store w3 q1)) e \<noteq> -1"
    using in1 by (simp add: q3 indexOf_notin)
  have l3': "Entity.queries (entity_store w3' e) = q2 # qs"
    using in3 by (simp add: w3'_def Query_removeEntity_backrefs l3 splice1_Cons_0)
  have step: "w4 = dispose_queries e 1 w3'"
    unfolding w4_def w3'_def
    by (subst dispose_queries.simps) (simp add: l3)
  have n1: "q1 \<notin> set (drop 1 (Entity.queries (entity_store w3' e)))"
    and n2: "q2 \<notin> set (drop 1 (Entity.queries (entity_store w3' e)))"
    using dist by (simp_all add: l3')
  have q4_1: "query_store w4 q1 = query_store w3' q1"
    unfolding step by (rule dispose_queries_untouched[OF n1])
  have q4_2: "query_store w4 q2 = query_store w q2"
  proof -
    have "query_store w4 q2 = query_store w3' q2"
      unfolding step by (rule dispose_queries_untouched[OF n2])
    also have "\<dots> = query_store w3 q2"
      using dist by (simp add: w3'_def Query_removeEntity_other_query)
    finally show ?thesis by (simp add: q3)
  qed
  have b4: "beside_queries w4 = beside_queries w3"
    by (simp add: w4_def beside_dispose_queries)
  have s5: "entity_store w5 = entity_store w4"
    by (simp add: w5_def dispose_components_entity_store)
  have p5: "entityPool w5 = entityPool w"
    by (simp add: w5_def dispose_components_entityPool beside_world[OF b4] q3)
  have e6: "components (entity_store w6 e) = []"
    by (simp add: w6_def upd_entity_def)
  have p6: "entityPool w6 = entityPool w"
    by (simp add: w6_def upd_entity_def p5)
  have c6: "components (entity_store w6 (baseObject (entityPool w6))) = []"
  proof (cases "baseObject (entityPool w) = e")
    case True
    then show ?thesis by (simp add: p6 e6)
  next
    case False
    then have "components (entity_store w6 (baseObject (entityPool w))) =
               components (entity_store w (baseObject (entityPool w)))"
      by (simp add: w6_def upd_entity_def s5 beside_fields[OF b4] e3)
    then show ?thesis by (simp add: p6 base)
  qed
  have r7: "w7 = (if Entity.pool (entity_store w6 e)
                  then w6\<lparr>entityPool := (entityPool w6)\<lparr>freeList := freeList (entityPool w6) @ [e]\<rparr>\<rparr>
                  else w6)"
    by (simp add: w7_def EntityPool_release_bare[OF c6])
  have w76: "query_store w7 = query_store w6" "pool_store w7 = pool_store w6"
    by (simp_all add: r7)
  have w7: "query_store w7 = query_store w5" "pool_store w7 = pool_store w5"
    by (simp_all add: w76) (simp_all add: w6_def upd_entity_def)
  have q5: "query_store w5 = query_store w4"
    by (simp add: w5_def dispose_components_query_store)
  show "Query.entities (query_store (Entity_dispose e True w) q1) =
          remove1 e (Query.entities (query_store w q1))"
    using in1
    by (simp add: unfold onEntityDisposed_stores w7 q5 q4_1 w3'_def
        Query_removeEntity_entities q3)
  show "query_store (Entity_dispose e True w) q2 = query_store w q2"
    by (simp add: unfold onEntityDisposed_stores w7 q5 q4_2)
  show "c \<in> set (freeList (pool_store (Entity_dispose e True w) p))"
    if m: "(n, c) \<in> set (components (entity_store w e))"
      and p: "Component.pool (component_store w c) = Some p"
  proof -
    have c4: "components (entity_store w4 e) = components (entity_store w e)"
      by (simp add: beside_fields[OF b4] e3)
    have "component_store w4 = component_store w" "pool_store w4 = pool_store w"
      by (simp_all add: beside_world[OF b4] q3)
    then have "c \<in> set (freeList (pool_store w5 p))"
      unfolding w5_def c4
      using dispose_components_released[OF m, of w4 p] p by simp
    then show ?thesis
      by (simp add: unfold onEntityDisposed_stores w7)
  qed
qed

lemma world_dead_eval:
  "\<not> alive (entity_store world_dead (Suc 0)) \<and>
   Entity.queries (entity_store world_dead (Suc 0)) = [0, Suc 0] \<and>
   Query.entities (query_store world_dead 0) = [Suc 0] \<and>
   Query.entities (query_store world_dead (Suc 0)) = [Suc 0] \<and>
   components (entity_store world_dead (Suc 0)) = [(''A'', 2)] \<and>
   Component.pool (component_store world_dead 2) = Some 0 \<and>
   components (entity_store world_dead (baseObject (entityPool world_dead))) = [] \<and>
   Entity.pool (entity_store world_dead (Suc 0)) \<and>
   World.entities world_dead = [Suc 0] \<and>
   entitiesToRemove world_dead = [Suc 0]"
  by (simp add: world_dead_def world1_def world0_def model_defs compA_def compB_def growth_eq
      Entity_dispose_def onDisposeEntity_def queueEntityDisposal_def getQuery_def Query_new_def
      Query_seed_def Query_match_def hasAllComponents_def hasAnyComponents_def hasComponent_def
      queryKey_def Not_def)

text \<open>
  C10. What \<^verbatim>\<open>dispose(true)\<close> does to an entity that is not alive (as when the world
  drains \<^verbatim>\<open>entitiesToRemove\<close>) and whose list of queries starts with two different
  queries \<open>q1\<close>, \<open>q2\<close>, the list having no duplicates: its \<^verbatim>\<open>alive\<close> flag is true
  afterwards, its uuid is a new one, its list of queries, its type lists and its component
  maps are empty (so \<^verbatim>\<open>hasComponent\<close> is false for every class), it is back on the free
  list of the entity pool if it belongs to it, every component instance it had that
  belongs to a pool is on the free list of that pool, and it is taken out of the entity
  list of \<open>q1\<close>; but it is still in the entity list of \<open>q2\<close>. The loop over
  \<^verbatim>\<open>this.queries\<close> advances its index while \<^verbatim>\<open>removeEntity\<close> shortens that very
  array, so every second query is skipped. (The base object of the entity pool carries no
  component, as in every world made by \<^verbatim>\<open>new World()\<close>.)
\<close>

theorem dispose_immediately_skips_queries:
  assumes "\<not> alive (entity_store w e)"
    and "Entity.queries (entity_store w e) = q1 # q2 # qs"
    and "distinct (q1 # q2 # qs)"
    and "e \<in> set (Query.entities (query_store w q1))"
    and "e \<in> set (Query.entities (query_store w q2))"
    and "components (entity_store w (baseObject (entityPool w))) = []"
  shows "alive (entity_store (Entity_dispose e True w) e) \<and>
         uuid (entity_store (Entity_dispose e True w) e) = fst (draw_uuid w) \<and>
         Entity.queries (entity_store (Entity_dispose e True w) e) = [] \<and>
         Entity.componentTypes (entity_store (Entity_dispose e True w) e) = [] \<and>
         componentTypesToRemove (entity_store (Entity_dispose e True w) e) = [] \<and>
         components (entity_store (Entity_dispose e True w) e) = [] \<and>
         componentsToRemove (entity_store (Entity_dispose e True w) e) = [] \<and>
         hasComponent (entity_store (Entity_dispose e True w) e) C includeRemoved = False \<and>
         (Entity.pool (entity_store w e) \<longrightarrow>
            e \<in> set (freeList (entityPool (Entity_dispose e True w)))) \<and>
         (\<forall>n c p. (n, c) \<in> set (components (entity_store w e)) \<and>
                  Component.pool (component_store w c) = Some p \<longrightarrow>
                  c \<in> set (freeList (pool_store (Entity_dispose e True w) p))) \<and>
         Query.entities (query_store (Entity_dispose e True w) q1) =
           remove1 e (Query.entities (query_store w q1)) \<and>
         e \<in> set (Query.entities (query_store (Entity_dispose e True w) q2))"
proof -
  have released:
    "\<forall>n c p. (n, c) \<in> set (components (entity_store w e)) \<and>
              Component.pool (component_store w c) = Some p \<longrightarrow>
              c \<in> set (freeList (pool_store (Entity_dispose e True w) p))"
    using Entity_dispose_dead(3)[OF assms(1,2,3,4,6)] by blast
  show ?thesis
    using assms(5) released
    by (simp add: Entity_dispose_immediately[OF assms(6)] hasComponent_empty
        Entity_dispose_dead(1,2)[OF assms(1,2,3,4,6)])
qed

theorem dispose_immediately_skips_queries_witness:
  "\<not> alive (entity_store world_dead 1) \<and>
   Entity.queries (entity_store world_dead 1) = [0, 1] \<and>
   Query.entities (query_store world_dead 0) = [1] \<and>
   Query.entities (query_store world_dead 1) = [1] \<and>
   components (entity_store world_dead 1) = [(''A'', 2)] \<and>
   Component.pool (component_store world_dead 2) = Some 0 \<and>
   Entity.pool (entity_store world_dead 1) \<and>
   alive (entity_store (Entity_dispose 1 True world_dead) 1) \<and>
   Entity.queries (entity_store (Entity_dispose 1 True world_dead) 1) = [] \<and>
   1 \<in> set (freeList (entityPool (Entity_dispose 1 True world_dead))) \<and>
   2 \<in> set (freeList (pool_store (Entity_dispose 1 True world_dead) 0)) \<and>
   Query.entities (query_store (Entity_dispose 1 True world_dead) 0) = [] \<and>
   1 \<in> set (Query.entities (query_store (Entity_dispose 1 True world_dead) 1))"
proof -
  have h: "\<not> alive (entity_store world_dead (Suc 0))"
    "Entity.queries (entity_store world_dead (Suc 0)) = [0, Suc 0]"
    "distinct [0, Suc 0]"
    "Suc 0 \<in> set (Query.entities (query_store world_dead 0))"
    "Suc 0 \<in> set (Query.entities (query_store world_dead (Suc 0)))"
    "components (entity_store world_dead (baseObject (entityPool world_dead))) = []"
    using world_dead_eval by simp_all
  have v: "Query.entities (query_store world_dead 0) = [Suc 0]"
    "Query.entities (query_store world_dead (Suc 0)) = [Suc 0]"
    "components (entity_store world_dead (Suc 0)) = [(''A'', 2)]"
    "Component.pool (component_store world_dead 2) = Some 0"
    "Entity.pool (entity_store world_dead (Suc 0))"
    using world_dead_eval by simp_all
  show ?thesis
    using dispose_immediately_skips_queries[OF h, of compA False] h v
    by simp
qed


section \<open>Queries with a negated component\<close>








lemma join2: "join sep [x, y] = x @ sep @ y"
  by simp











chapter \<open>The entity manager with the ghost rule\<close>

text \<open>
  \<^verbatim>\<open>EntityManager\<close> (the class whose \<^verbatim>\<open>disposeEntity\<close> looks at
  \<^verbatim>\<open>_numStateComponents\<close>) works on the entities of \<^verbatim>\<open>src/Entity.js\<close>, whose
  \<^verbatim>\<open>dispose\<close> calls it, and on the pools of \<^verbatim>\<open>src/ComponentManager.js\<close>. The leading
  underscore of a field name is dropped. \<^verbatim>\<open>Component.__proto__ === SystemStateComponent\<close>
  is the flag \<open>isSystemStateComponent\<close> of the class.
\<close>

section \<open>State\<close>

record ManagedEntity =
  entityManager :: bool
  alive :: bool
  ComponentTypes :: "ComponentClass list"
  components :: "nat dict"
  componentsToRemove :: "nat slot dict"
  ComponentTypesToRemove :: "ComponentClass list"
  numStateComponents :: int
  entityId :: "int option"

text \<open>
  The calls that leave the sources at hand, in the order they are made: the events of the
  manager's dispatcher and the two notifications of the query manager
  (\<^verbatim>\<open>EventDispatcher.js\<close> and \<^verbatim>\<open>QueryManager.js\<close> are not among the sources; they
  maintain listeners and queries).
\<close>

datatype notification =
    ENTITY_REMOVED nat
  | COMPONENT_REMOVE nat ComponentClass
  | onEntityRemoved nat
  | onEntityComponentRemoved nat ComponentClass

text \<open>
  The manager, with the component manager's pools and counters and the store of the
  entities. A pool is its free list; \<^verbatim>\<open>registerComponent(C, false)\<close> stores
  \<^verbatim>\<open>null\<close> for the pool, which is \<open>Undefined\<close> here.
\<close>

record EntityManager =
  entities :: "nat list"
  entityPool :: "nat list"
  entitiesWithComponentsToRemove :: "nat list"
  entitiesToRemove :: "nat list"
  deferredRemovalEnabled :: bool
  componentPool :: "string \<rightharpoonup> nat list slot"
  numComponents :: "string \<rightharpoonup> jsnum"
  notified :: "notification list"
  store :: "nat \<Rightarrow> ManagedEntity"

text \<open>
  A method either returns or throws; in both cases the state it has reached is kept, since
  what was assigned before a throw stays assigned.
\<close>

datatype outcome = Returned EntityManager | Threw error EntityManager

fun final :: "outcome \<Rightarrow> EntityManager" where
  "final (Returned m) = m"
| "final (Threw err m) = m"

fun and_then :: "outcome \<Rightarrow> (EntityManager \<Rightarrow> outcome) \<Rightarrow> outcome" where
  "and_then (Returned m) f = f m"
| "and_then (Threw err m) f = Threw err m"

definition upd_managed :: "nat \<Rightarrow> (ManagedEntity \<Rightarrow> ManagedEntity) \<Rightarrow> EntityManager \<Rightarrow> EntityManager" where
  "upd_managed e f m = m\<lparr>store := (store m)(e := f (store m e))\<rparr>"

definition notify :: "notification \<Rightarrow> EntityManager \<Rightarrow> EntityManager" where
  "notify n m = m\<lparr>notified := push (notified m) n\<rparr>"

section \<open>Pools\<close>

text \<open>
  Modelled from the spec: \<^verbatim>\<open>ObjectPool.release\<close> of this version (\<^verbatim>\<open>ObjectPool.js\<close>
  is not among the sources). The spec: ``\<^verbatim>\<open>release(item)\<close> first copies the base prototype
  over \<^verbatim>\<open>item\<close>, then returns it to the free list''. For an entity the reset to the base
  state is \<^verbatim>\<open>Entity.reset\<close> of \<^verbatim>\<open>src/Entity.js\<close>, which sets \<^verbatim>\<open>entityId\<close> to
  \<open>-1\<close>; a component instance has no state in this model.
\<close>

definition entityPool_release :: "nat \<Rightarrow> EntityManager \<Rightarrow> EntityManager" where
  "entityPool_release item m =
     (let m1 = upd_managed item (\<lambda>E. E\<lparr>entityId := Some (-1)\<rparr>) m
      in m1\<lparr>EntityManager.entityPool := push (EntityManager.entityPool m1) item\<rparr>)"

text \<open>
  \<^verbatim>\<open>this.componentsManager._componentPool[name].release(component)\<close>: a
  \<^verbatim>\<open>TypeError\<close> when there is no pool under the name, or when the component is
  \<^verbatim>\<open>undefined\<close> and cannot be reset.
\<close>

definition componentPool_release :: "string \<Rightarrow> nat slot \<Rightarrow> EntityManager \<Rightarrow> outcome" where
  "componentPool_release propName component m =
     (case map_get (componentPool m) propName of
        Undefined \<Rightarrow> Threw (Error ''TypeError'') m
      | Obj free \<Rightarrow>
          (case component of
             Undefined \<Rightarrow> Threw (Error ''TypeError'') m
           | Obj c \<Rightarrow> Returned (m\<lparr>componentPool := (componentPool m)(propName \<mapsto> Obj (push free c))\<rparr>)))"

definition componentRemovedFromEntity :: "ComponentClass \<Rightarrow> EntityManager \<Rightarrow> EntityManager" where
  "componentRemovedFromEntity C m = m\<lparr>numComponents := count_add (numComponents m) (name C) (-1)\<rparr>"

section \<open>Removing components and disposing entities\<close>

definition releaseEntity :: "nat \<Rightarrow> int \<Rightarrow> EntityManager \<Rightarrow> EntityManager" where
  "releaseEntity entity index m =
     (let m1 = m\<lparr>EntityManager.entities := splice1 index (EntityManager.entities m)\<rparr>;
          m2 = upd_managed entity (\<lambda>E. E\<lparr>entityManager := False\<rparr>) m1
      in entityPool_release entity m2)"

definition entityRemoveComponentSync :: "nat \<Rightarrow> ComponentClass \<Rightarrow> int \<Rightarrow> EntityManager \<Rightarrow> outcome" where
  "entityRemoveComponentSync entity C index m =
     (let m1 = upd_managed entity
                 (\<lambda>E. E\<lparr>ComponentTypes := splice1 index (ComponentTypes E)\<rparr>) m;
          component = dict_ref (ManagedEntity.components (store m1 entity)) (name C);
          m2 = upd_managed entity
                 (\<lambda>E. E\<lparr>ManagedEntity.components :=
                          dict_delete (ManagedEntity.components E) (name C)\<rparr>) m1
      in and_then (componentPool_release (name C) component m2)
           (\<lambda>m3. Returned (componentRemovedFromEntity C m3)))"

text \<open>
  \<^verbatim>\<open>entityRemoveComponent\<close> from the event \<^verbatim>\<open>COMPONENT_REMOVE\<close> to the notification of
  the query manager, for a class found at \<open>index\<close> of the entity's types.
\<close>

definition entityRemoveComponent_found :: "nat \<Rightarrow> ComponentClass \<Rightarrow> bool \<Rightarrow> int \<Rightarrow> EntityManager \<Rightarrow> outcome" where
  "entityRemoveComponent_found entity C immediately index m =
     (let m1 = notify (COMPONENT_REMOVE entity C) m
      in and_then
           (if immediately then entityRemoveComponentSync entity C index m1
            else
              let m2 = (if length (ComponentTypesToRemove (store m1 entity)) = 0
                        then m1\<lparr>EntityManager.entitiesWithComponentsToRemove :=
                                  push (EntityManager.entitiesWithComponentsToRemove m1) entity\<rparr>
                        else m1);
                  m3 = upd_managed entity
                         (\<lambda>E. E\<lparr>ComponentTypes := splice1 index (ComponentTypes E),
                                ComponentTypesToRemove := push (ComponentTypesToRemove E) C,
                                ManagedEntity.componentsToRemove :=
                                  dict_set (ManagedEntity.componentsToRemove E) (name C)
                                    (dict_ref (ManagedEntity.components E) (name C)),
                                ManagedEntity.components :=
                                  dict_delete (ManagedEntity.components E) (name C)\<rparr>) m2
              in Returned m3)
           (\<lambda>m4. Returned (notify (onEntityComponentRemoved entity C) m4)))"

text \<open>
  \<^verbatim>\<open>entityRemoveComponent\<close>, \<^verbatim>\<open>entityRemoveAllComponents\<close> and \<^verbatim>\<open>disposeEntity\<close>
  call each other: removing a system state component of a dead entity disposes the entity,
  and disposing removes all components. The cycle is never taken, since
  \<^verbatim>\<open>entityRemoveAllComponents\<close> skips the system state components and
  \<^verbatim>\<open>entityRemoveComponent\<close> reaches \<^verbatim>\<open>entity.dispose()\<close> for those only. The three are
  therefore defined in that order: first the removal of a class that is not a system state
  component, which ends after the notification.
\<close>

definition entityRemoveComponent_plain :: "nat \<Rightarrow> ComponentClass \<Rightarrow> bool \<Rightarrow> EntityManager \<Rightarrow> outcome" where
  "entityRemoveComponent_plain entity C immediately m =
     (let index = indexOf (ComponentTypes (store m entity)) C
      in if index = -1 then Returned m
         else entityRemoveComponent_found entity C immediately index m)"

text \<open>
  The loop of \<^verbatim>\<open>entityRemoveAllComponents\<close>, \<open>j\<close> running down over the array that the
  removals shrink; \<open>entityRemoveAllComponents_from (Suc j)\<close> is the loop at index \<open>j\<close>.
  Reading \<^verbatim>\<open>Components[j].__proto__\<close> beyond the end of the array is a
  \<^verbatim>\<open>TypeError\<close>.
\<close>

fun entityRemoveAllComponents_from :: "nat \<Rightarrow> nat \<Rightarrow> bool \<Rightarrow> EntityManager \<Rightarrow> outcome" where
  "entityRemoveAllComponents_from 0 entity immediately m = Returned m"
| "entityRemoveAllComponents_from (Suc j) entity immediately m =
     (let Components = ComponentTypes (store m entity)
      in if j < length Components then
           (if \<not> isSystemStateComponent (Components ! j)
            then and_then (entityRemoveComponent_plain entity (Components ! j) immediately m)
                   (entityRemoveAllComponents_from j entity immediately)
            else entityRemoveAllComponents_from j entity immediately m)
         else Threw (Error ''TypeError'') m)"

definition entityRemoveAllComponents :: "nat \<Rightarrow> bool \<Rightarrow> EntityManager \<Rightarrow> outcome" where
  "entityRemoveAllComponents entity immediately m =
     entityRemoveAllComponents_from (length (ComponentTypes (store m entity))) entity immediately m"

definition disposeEntity :: "nat \<Rightarrow> bool \<Rightarrow> EntityManager \<Rightarrow> outcome" where
  "disposeEntity entity immediately m =
     (let index = indexOf (EntityManager.entities m) entity
      in if index = -1 then Threw (Error ''Tried to remove entity not in list'') m
         else
           let m1 = upd_managed entity (\<lambda>E. E\<lparr>ManagedEntity.alive := False\<rparr>) m;
               m2 = (if numStateComponents (store m1 entity) = 0 then
                       let m3 = notify (onEntityRemoved entity) (notify (ENTITY_REMOVED entity) m1)
                       in if immediately then releaseEntity entity index m3
                          else m3\<lparr>EntityManager.entitiesToRemove :=
                                    push (EntityManager.entitiesToRemove m3) entity\<rparr>
                     else m1)
           in entityRemoveAllComponents entity immediately m2)"

text \<open>
  \<^verbatim>\<open>Entity.dispose(forceImmediate)\<close> of \<^verbatim>\<open>src/Entity.js\<close>: the call goes through
  \<^verbatim>\<open>this._entityManager\<close>, which is \<^verbatim>\<open>null\<close> once the entity was released.
\<close>

definition ManagedEntity_dispose :: "nat \<Rightarrow> bool \<Rightarrow> EntityManager \<Rightarrow> outcome" where
  "ManagedEntity_dispose entity forceImmediate m =
     (if entityManager (store m entity) then disposeEntity entity forceImmediate m
      else Threw (Error ''TypeError'') m)"

text \<open>
  \<^verbatim>\<open>entityRemoveComponent\<close> in full. Its call \<^verbatim>\<open>entity.dispose()\<close> passes no argument.
\<close>

definition entityRemoveComponent :: "nat \<Rightarrow> ComponentClass \<Rightarrow> bool \<Rightarrow> EntityManager \<Rightarrow> outcome" where
  "entityRemoveComponent entity C immediately m =
     (let index = indexOf (ComponentTypes (store m entity)) C
      in if index = -1 then Returned m
         else
           and_then (entityRemoveComponent_found entity C immediately index m)
             (\<lambda>m1. if isSystemStateComponent C then
                      let m2 = upd_managed entity
                                 (\<lambda>E. E\<lparr>numStateComponents := numStateComponents E - 1\<rparr>) m1
                      in if numStateComponents (store m2 entity) = 0 \<and>
                            \<not> ManagedEntity.alive (store m2 entity)
                         then ManagedEntity_dispose entity False m2
                         else Returned m2
                    else Returned m1))"





section \<open>Example: an entity with a system state component\<close>





section \<open>The ghost rule\<close>


text \<open>What the ghost rule is about: the list, the pool, the queue, and three fields of entities.\<close>

definition ghost_view ::
  "EntityManager \<Rightarrow> nat list \<times> nat list \<times> nat list \<times> (nat \<Rightarrow> bool \<times> int \<times> bool)" where
  "ghost_view m =
     (EntityManager.entities m, EntityManager.entityPool m, EntityManager.entitiesToRemove m,
      \<lambda>e. (ManagedEntity.alive (store m e), numStateComponents (store m e),
           entityManager (store m e)))"

lemma ghost_view_componentPool_release:
  "ghost_view (final (componentPool_release n c m)) = ghost_view m"
  by (simp add: componentPool_release_def ghost_view_def split: slot.splits)




















lemma entityRemoveComponent_plain_eq:
  "\<not> isSystemStateComponent C \<Longrightarrow>
   entityRemoveComponent e C imm m = entityRemoveComponent_plain e C imm m"
  by (cases "entityRemoveComponent_found e C imm (indexOf (ComponentTypes (store m e)) C) m")
     (simp_all add: entityRemoveComponent_def entityRemoveComponent_plain_def Let_def)








end
